theory Spec2Isabelle
  imports Main
begin

section \<open>The cluster reconciler of k3k (pkg/controller/cluster/cluster.go)\<close>

text \<open>
  A shallow embedding of the reconciliation engine of \<^verbatim>\<open>cluster.go\<close>. The Cluster
  object that the Go code mutates through a pointer is passed explicitly and returned
  updated, also when a step fails. Every call to a collaborator (the resource client,
  the discovery client, the port allocator, the agent, bootstrap and kubeconfig
  packages) is recorded as an event, and its answer is read from the reconciler
  record, which fixes the answers of the collaborators for one pass.
\<close>

subsection \<open>Strings\<close>

text \<open>
  Go strings are byte sequences, as \<^typ>\<open>string\<close> is. \<^verbatim>\<open>strings.Index\<close>,
  \<^verbatim>\<open>strings.Split\<close>, \<^verbatim>\<open>strings.HasPrefix\<close> and \<^verbatim>\<open>strings.TrimPrefix\<close> work on bytes;
  \<^verbatim>\<open>strings.TrimSpace\<close> works on the runes that the bytes encode in UTF-8.
\<close>

definition HasPrefix :: "string \<Rightarrow> string \<Rightarrow> bool" where
  "HasPrefix s p = (take (length p) s = p)"

definition TrimPrefix :: "string \<Rightarrow> string \<Rightarrow> string" where
  "TrimPrefix s p = (if HasPrefix s p then drop (length p) s else s)"

fun Index :: "string \<Rightarrow> string \<Rightarrow> nat option" where
  "Index [] sep = (if sep = [] then Some 0 else None)"
| "Index (c # cs) sep =
     (if HasPrefix (c # cs) sep then Some 0 else map_option Suc (Index cs sep))"

text \<open>
  \<^verbatim>\<open>strings.Split(s, sep)\<close> for a non-empty separator: cut at every occurrence of
  \<open>sep\<close>, found from the left by \<open>Index\<close>. (With an empty separator Go cuts after
  every UTF-8 sequence; on ASCII text that is every byte. The reconciler only splits
  at non-empty separators.)
\<close>

function Split :: "string \<Rightarrow> string \<Rightarrow> string list" where
  "Split s sep =
     (if sep = [] then map (\<lambda>c. [c]) s
      else (case Index s sep of
              None \<Rightarrow> [s]
            | Some m \<Rightarrow> take m s # Split (drop (m + length sep) s) sep))"
  by pat_completeness auto
termination
proof (relation "measure (\<lambda>(s, sep). length s)")
  show "wf (measure (\<lambda>(s, sep). length s))" by simp
next
  fix s sep :: string and m :: nat
  assume sep: "sep \<noteq> []" and found: "Index s sep = Some m"
  have bound: "Index t sep = Some i \<Longrightarrow> i + length sep \<le> length t" for t i
  proof (induction t arbitrary: i)
    case Nil
    then show ?case by (simp split: if_splits)
  next
    case (Cons c cs)
    show ?case
    proof (cases "HasPrefix (c # cs) sep")
      case True
      then have "length sep \<le> length (c # cs)"
        by (metis HasPrefix_def length_take min.cobounded1)
      with True Cons.prems show ?thesis by simp
    next
      case False
      with Cons.prems obtain j where "Index cs sep = Some j" "i = Suc j" by auto
      with Cons.IH show ?thesis by simp
    qed
  qed
  from sep have "0 < length sep" by simp
  with bound [OF found] have "length s - (m + length sep) < length s"
    by arith
  then show "((drop (m + length sep) s, sep), (s, sep)) \<in> measure (\<lambda>(s, sep). length s)"
    by simp
qed

declare Split.simps [simp del]

text \<open>
  \<^verbatim>\<open>strings.TrimSpace\<close> removes the leading and the trailing white space, as
  \<^verbatim>\<open>unicode.IsSpace\<close> defines it: the runes U+0009 to U+000D, U+0020, U+0085,
  U+00A0, U+1680, U+2000 to U+200A, U+2028, U+2029, U+202F, U+205F and U+3000. Go
  decodes the bytes rune by rune, from the left for the leading and from the right for
  the trailing white space; a byte that does not belong to a valid encoding is decoded
  as the replacement rune, which is no white space, and a rune has one valid encoding.
  So a white space rune is found exactly where its UTF-8 encoding stands: \<open>whiteSpace\<close>
  lists the encodings, the leading ones are removed while one is a prefix, and then the
  trailing ones while one is a suffix.
\<close>

definition whiteSpace :: "string list" where
  "whiteSpace =
     [[CHR 0x09], [CHR 0x0A], [CHR 0x0B], [CHR 0x0C], [CHR 0x0D], [CHR 0x20],
      [CHR 0xC2, CHR 0x85], [CHR 0xC2, CHR 0xA0],
      [CHR 0xE1, CHR 0x9A, CHR 0x80],
      [CHR 0xE2, CHR 0x80, CHR 0x80], [CHR 0xE2, CHR 0x80, CHR 0x81],
      [CHR 0xE2, CHR 0x80, CHR 0x82], [CHR 0xE2, CHR 0x80, CHR 0x83],
      [CHR 0xE2, CHR 0x80, CHR 0x84], [CHR 0xE2, CHR 0x80, CHR 0x85],
      [CHR 0xE2, CHR 0x80, CHR 0x86], [CHR 0xE2, CHR 0x80, CHR 0x87],
      [CHR 0xE2, CHR 0x80, CHR 0x88], [CHR 0xE2, CHR 0x80, CHR 0x89],
      [CHR 0xE2, CHR 0x80, CHR 0x8A],
      [CHR 0xE2, CHR 0x80, CHR 0xA8], [CHR 0xE2, CHR 0x80, CHR 0xA9],
      [CHR 0xE2, CHR 0x80, CHR 0xAF],
      [CHR 0xE2, CHR 0x81, CHR 0x9F],
      [CHR 0xE3, CHR 0x80, CHR 0x80]]"

definition HasSuffix :: "string \<Rightarrow> string \<Rightarrow> bool" where
  "HasSuffix s suffix =
     (length suffix \<le> length s \<and> drop (length s - length suffix) s = suffix)"

function TrimLeftSpace :: "string \<Rightarrow> string" where
  "TrimLeftSpace s =
     (case find (HasPrefix s) whiteSpace of
        None \<Rightarrow> s
      | Some w \<Rightarrow> TrimLeftSpace (drop (length w) s))"
  by pat_completeness auto
termination
proof (relation "measure length")
  show "wf (measure length)" by simp
next
  fix s w :: string
  assume "find (HasPrefix s) whiteSpace = Some w"
  then have "w \<in> set whiteSpace" and "HasPrefix s w"
    by (auto simp: find_Some_iff)
  from \<open>w \<in> set whiteSpace\<close> have "0 < length w"
    by (auto simp: whiteSpace_def)
  moreover from \<open>HasPrefix s w\<close> have "length w \<le> length s"
    by (metis HasPrefix_def length_take min.cobounded1)
  ultimately have "length s - length w < length s" by arith
  then show "(drop (length w) s, s) \<in> measure length" by simp
qed

function TrimRightSpace :: "string \<Rightarrow> string" where
  "TrimRightSpace s =
     (case find (HasSuffix s) whiteSpace of
        None \<Rightarrow> s
      | Some w \<Rightarrow> TrimRightSpace (take (length s - length w) s))"
  by pat_completeness auto
termination
proof (relation "measure length")
  show "wf (measure length)" by simp
next
  fix s w :: string
  assume "find (HasSuffix s) whiteSpace = Some w"
  then have "w \<in> set whiteSpace" and "HasSuffix s w"
    by (auto simp: find_Some_iff)
  from \<open>w \<in> set whiteSpace\<close> have "0 < length w"
    by (auto simp: whiteSpace_def)
  moreover from \<open>HasSuffix s w\<close> have "length w \<le> length s"
    by (simp add: HasSuffix_def)
  ultimately have "length s - length w < length s" by arith
  then show "(take (length s - length w) s, s) \<in> measure length" by simp
qed

declare TrimLeftSpace.simps [simp del] TrimRightSpace.simps [simp del]

definition TrimSpace :: "string \<Rightarrow> string" where
  "TrimSpace s = TrimRightSpace (TrimLeftSpace s)"

subsection \<open>Errors\<close>

text \<open>
  Go errors as values. The two sentinels are the package variable
  \<^verbatim>\<open>ErrClusterValidation\<close> and \<^verbatim>\<open>bootstrap.ErrServerNotReady\<close>; \<open>StatusError\<close> is an
  error of the resource API with its reason and its HTTP code; \<open>Wrapped\<close> is
  \<^verbatim>\<open>fmt.Errorf\<close> with one \<^verbatim>\<open>%w\<close> verb (the text identifies the format and its other
  arguments); \<open>Joined\<close> is \<^verbatim>\<open>errors.Join\<close>. Of the reasons, \<open>KnownReason\<close> is another
  one of those that apimachinery lists as known (conflict, invalid, ...), and
  \<open>UnknownReason\<close> one outside that list, the empty \<^verbatim>\<open>StatusReasonUnknown\<close> included.
\<close>

datatype StatusReason =
    StatusReasonNotFound
  | StatusReasonAlreadyExists
  | KnownReason string
  | UnknownReason string

datatype error =
    ErrClusterValidation
  | ErrServerNotReady
  | StatusError StatusReason int
  | OtherError string
  | Wrapped string error
  | Joined "error list"

text \<open>\<^verbatim>\<open>errors.Is\<close>: the target is found in the tree of wrapped errors.\<close>

fun errors_Is :: "error \<Rightarrow> error \<Rightarrow> bool" where
  "errors_Is (Wrapped m e) target = (Wrapped m e = target \<or> errors_Is e target)"
| "errors_Is (Joined es) target = (Joined es = target \<or> (\<exists>e \<in> set es. errors_Is e target))"
| "errors_Is e target = (e = target)"

text \<open>
  The functions of \<^verbatim>\<open>apierrors\<close>. \<^verbatim>\<open>reasonAndCodeForError\<close> takes the reason and the
  code of the first API status error in the tree (\<^verbatim>\<open>errors.As\<close>), and the unknown reason
  with code 0 when there is none. \<^verbatim>\<open>IsNotFound\<close> holds for the reason not-found, and
  also for a reason that is not a known one when the code is 404; \<^verbatim>\<open>IsAlreadyExists\<close>
  compares the reason.
\<close>

fun APIStatus :: "error \<Rightarrow> (StatusReason \<times> int) option" where
  "APIStatus (StatusError reason code) = Some (reason, code)"
| "APIStatus (Wrapped m e) = APIStatus e"
| "APIStatus (Joined es) =
     (case filter (\<lambda>x. x \<noteq> None) (map APIStatus es) of [] \<Rightarrow> None | x # _ \<Rightarrow> x)"
| "APIStatus e = None"

definition reasonAndCodeForError :: "error \<Rightarrow> StatusReason \<times> int" where
  "reasonAndCodeForError e =
     (case APIStatus e of Some status \<Rightarrow> status | None \<Rightarrow> (UnknownReason [], 0))"

definition ReasonForError :: "error \<Rightarrow> StatusReason" where
  "ReasonForError e = fst (reasonAndCodeForError e)"

definition knownReasons :: "StatusReason \<Rightarrow> bool" where
  "knownReasons reason = (case reason of UnknownReason x \<Rightarrow> False | _ \<Rightarrow> True)"

definition IsNotFound :: "error \<Rightarrow> bool" where
  "IsNotFound e =
     (case reasonAndCodeForError e of
        (reason, code) \<Rightarrow>
          reason = StatusReasonNotFound \<or> (\<not> knownReasons reason \<and> code = 404))"

definition IsAlreadyExists :: "error \<Rightarrow> bool" where
  "IsAlreadyExists e = (ReasonForError e = StatusReasonAlreadyExists)"

definition IgnoreNotFound :: "error option \<Rightarrow> error option" where
  "IgnoreNotFound err = (case err of None \<Rightarrow> None | Some e \<Rightarrow> if IsNotFound e then None else Some e)"

text \<open>\<^verbatim>\<open>errors.Join(err, e)\<close> where \<open>err\<close> may be nil: nil values are dropped.\<close>

definition errors_Join :: "error option \<Rightarrow> error \<Rightarrow> error option" where
  "errors_Join err e = Some (Joined (case err of None \<Rightarrow> [e] | Some e0 \<Rightarrow> [e0, e]))"

subsection \<open>Data model\<close>

text \<open>
  Instants of time are numbers, \<open>0\<close> being the zero \<^verbatim>\<open>Time\<close>; a
  \<^verbatim>\<open>time.Duration\<close> counts nanoseconds.
\<close>

type_synonym Time = nat

definition Second :: int where
  "Second = 1000000000"

record Condition =
  CondType :: string
  CondStatus :: string
  ObservedGeneration :: int
  LastTransitionTime :: Time
  Reason :: string
  Message :: string

type_synonym ClusterMode = string

record IngressConfig =
  IngressClassName :: string

record ExposeConfig =
  Ingress :: "IngressConfig option"

record ClusterSpec =
  Version :: string
  Mode :: ClusterMode
  ClusterCIDR :: string
  ServiceCIDR :: string
  MirrorHostNodes :: bool
  Expose :: "ExposeConfig option"

record ClusterStatus =
  HostVersion :: string
  StatusClusterCIDR :: string
  StatusServiceCIDR :: string
  PolicyName :: string
  KubeletPort :: int
  WebhookPort :: int
  Phase :: string
  Conditions :: "Condition list"

record Cluster =
  Name :: string
  Namespace :: string
  DeletionTimestamp :: "Time option"
  Finalizers :: "string list"
  Spec :: ClusterSpec
  Status :: ClusterStatus

record Namespace_obj =
  Labels :: "string \<rightharpoonup> string"

record VirtualClusterPolicy =
  PolicyObjName :: string
  AllowedMode :: ClusterMode

text \<open>
  A Pod of the resource API has at least one container (the API refuses a Pod without
  one), which is what makes \<^verbatim>\<open>Spec.Containers[0]\<close> defined: the first container is a
  field of its own.
\<close>

record Container =
  Args :: "string list"

record Pod =
  Container0 :: Container
  MoreContainers :: "Container list"

record Subject =
  SubjectKind :: string
  SubjectName :: string
  SubjectNamespace :: string

record Result =
  Requeue :: bool
  RequeueAfter :: int

definition Result_empty :: Result where
  "Result_empty = \<lparr>Requeue = False, RequeueAfter = 0\<rparr>"

subsubsection \<open>Constants\<close>

definition clusterFinalizerName :: string where
  "clusterFinalizerName = ''cluster.k3k.io/finalizer''"

definition ClusterInvalidName :: string where
  "ClusterInvalidName = ''system''"

definition defaultVirtualClusterCIDR :: string where
  "defaultVirtualClusterCIDR = ''10.52.0.0/16''"

definition defaultVirtualServiceCIDR :: string where
  "defaultVirtualServiceCIDR = ''10.53.0.0/16''"

definition defaultSharedClusterCIDR :: string where
  "defaultSharedClusterCIDR = ''10.42.0.0/16''"

definition defaultSharedServiceCIDR :: string where
  "defaultSharedServiceCIDR = ''10.43.0.0/16''"

text \<open>
  Modelled from the spec: the constants below are declared in packages that are not
  part of the sources at hand (\<^verbatim>\<open>v1alpha1\<close>, \<^verbatim>\<open>agent\<close>, \<^verbatim>\<open>policy\<close> and the status
  file of this package). The spec names the modes \<^verbatim>\<open>virtual\<close> and \<^verbatim>\<open>shared\<close>, the
  phases \<^verbatim>\<open>Unknown\<close> and \<^verbatim>\<open>Provisioning\<close>, the condition \<^verbatim>\<open>Ready\<close> and its reason
  \<^verbatim>\<open>Provisioning\<close>; the label key is the one named in the comment of
  \<^verbatim>\<open>namespaceEventHandler\<close>.
\<close>

definition SharedClusterMode :: ClusterMode where
  "SharedClusterMode = ''shared''"

definition VirtualClusterMode :: ClusterMode where
  "VirtualClusterMode = ''virtual''"

definition VirtualNodeMode :: ClusterMode where
  "VirtualNodeMode = ''virtual''"

definition ClusterUnknown :: string where
  "ClusterUnknown = ''Unknown''"

definition ClusterProvisioning :: string where
  "ClusterProvisioning = ''Provisioning''"

definition ConditionReady :: string where
  "ConditionReady = ''Ready''"

definition ReasonProvisioning :: string where
  "ReasonProvisioning = ''Provisioning''"

definition ConditionFalse :: string where
  "ConditionFalse = ''False''"

definition PolicyNameLabelKey :: string where
  "PolicyNameLabelKey = ''policy.k3k.io/policy-name''"

definition ServiceAccountKind :: string where
  "ServiceAccountKind = ''ServiceAccount''"

subsubsection \<open>Conditions\<close>

text \<open>
  \<^verbatim>\<open>meta.FindStatusCondition\<close> and \<^verbatim>\<open>meta.SetStatusCondition\<close> of apimachinery: the
  first condition of the type is updated in place, its transition time only when the
  status changes; a condition of a new type is appended, stamped with the current time
  when it carries none.
\<close>

fun FindStatusCondition :: "Condition list \<Rightarrow> string \<Rightarrow> Condition option" where
  "FindStatusCondition [] ty = None"
| "FindStatusCondition (c # cs) ty =
     (if CondType c = ty then Some c else FindStatusCondition cs ty)"

definition mergeCondition :: "Time \<Rightarrow> Condition \<Rightarrow> Condition \<Rightarrow> Condition" where
  "mergeCondition now existing new =
     (let c = (if CondStatus existing \<noteq> CondStatus new
               then existing\<lparr>CondStatus := CondStatus new,
                              LastTransitionTime :=
                                (if LastTransitionTime new \<noteq> 0 then LastTransitionTime new else now)\<rparr>
               else existing)
      in c\<lparr>Reason := Reason new, Message := Message new,
            ObservedGeneration := ObservedGeneration new\<rparr>)"

fun SetStatusCondition :: "Time \<Rightarrow> Condition list \<Rightarrow> Condition \<Rightarrow> Condition list" where
  "SetStatusCondition now [] new =
     [if LastTransitionTime new = 0 then new\<lparr>LastTransitionTime := now\<rparr> else new]"
| "SetStatusCondition now (c # cs) new =
     (if CondType c = CondType new then mergeCondition now c new # cs
      else c # SetStatusCondition now cs new)"

text \<open>\<^verbatim>\<open>controllerutil.AddFinalizer\<close>: appends the finalizer unless it is present.\<close>

definition AddFinalizer :: "Cluster \<Rightarrow> string \<Rightarrow> Cluster \<times> bool" where
  "AddFinalizer obj f =
     (if f \<in> set (Finalizers obj) then (obj, False)
      else (obj\<lparr>Finalizers := Finalizers obj @ [f]\<rparr>, True))"

definition IsZero :: "Time option \<Rightarrow> bool" where
  "IsZero t = (case t of None \<Rightarrow> True | Some x \<Rightarrow> x = 0)"

subsection \<open>Collaborators and events\<close>

text \<open>
  The two agent variants, with the arguments of their constructors
  (\<^verbatim>\<open>agent.NewVirtualAgent\<close>, \<^verbatim>\<open>agent.NewSharedAgent\<close>).
\<close>

datatype ResourceEnsurer =
    VirtualAgent string string string string
  | SharedAgent string string string string int int

datatype event =
    Get_Cluster_ev "string \<times> string"
  | Get_Namespace_ev string
  | Get_Policy_ev string
  | Status_Update_ev Cluster
  | Update_ev Cluster
  | finalizeCluster_ev Cluster
  | ServerVersion_ev
  | token_ev
  | Create_failingSvc_ev
  | List_apiServerPods_ev
  | Delete_NetworkPolicy_ev string
  | CreateOrUpdate_NetworkPolicy_ev string string
  | CreateOrUpdate_Service_ev
  | Create_Config_ev bool string
  | Create_StatefulService_ev
  | CreateOrUpdate_StatefulSet_ev
  | AllocateKubeletPort_ev
  | AllocateWebhookPort_ev
  | EnsureResources_ev ResourceEnsurer
  | Delete_Ingress_ev
  | CreateOrUpdate_Ingress_ev
  | GenerateBootstrapData_ev string string
  | Generate_Kubeconfig_ev string
  | CreateOrUpdate_Secret_ev string
  | Get_ClusterRoleBinding_ev string
  | Update_ClusterRoleBinding_ev string "Subject list"

text \<open>
  The reconciler: the four image settings of \<^verbatim>\<open>ClusterReconciler\<close>, and what its
  collaborators answer during the pass. \<open>Create_failingSvc\<close> is the text of the error
  of the deliberately failing service creation (\<open>None\<close> when the creation succeeds),
  the only thing \<^verbatim>\<open>lookupServiceCIDR\<close> reads of it. \<open>ParseCIDR\<close> is \<^verbatim>\<open>net.ParseCIDR\<close>
  followed by \<^verbatim>\<open>String()\<close> on the network it returns: the text of the masked network,
  or the parse error. \<open>Now\<close> is the clock. \<open>SharedAgentAccountName\<close> is
  \<^verbatim>\<open>controller.SafeConcatNameWithPrefix\<close> applied to the Cluster's name and the name of
  the shared agent.

  Three methods of the reconciler are not part of the sources at hand and are
  parameters as well: \<open>c_token\<close> (the method \<^verbatim>\<open>token\<close>), \<open>finalizeCluster\<close> and \<open>updateStatus\<close> (called by
  \<^verbatim>\<open>reconcileCluster\<close> with the Cluster and the error of the pass; what it does to the
  Cluster is its answer).
\<close>

record ClusterReconciler =
  SharedAgentImage :: string
  SharedAgentImagePullPolicy :: string
  K3SImage :: string
  K3SImagePullPolicy :: string
  Now :: Time
  Get_Cluster :: "string \<times> string \<Rightarrow> error + Cluster"
  Get_Namespace :: "string \<Rightarrow> error + Namespace_obj"
  Get_Policy :: "string \<Rightarrow> error + VirtualClusterPolicy"
  Status_Update :: "Cluster \<Rightarrow> error option"
  Update :: "Cluster \<Rightarrow> error option"
  finalizeCluster :: "Cluster \<Rightarrow> event list \<times> Result \<times> error option"
  updateStatus :: "Cluster \<Rightarrow> error option \<Rightarrow> Cluster"
  ServerVersion :: "error + string"
  c_token :: "Cluster \<Rightarrow> error + string"
  Create_failingSvc :: "string option"
  List_apiServerPods :: "error + Pod list"
  ParseCIDR :: "string \<Rightarrow> error + string"
  Delete_NetworkPolicy :: "error option"
  CreateOrUpdate_NetworkPolicy :: "error option"
  CreateOrUpdate_Service :: "error + string"
  server_Config :: "bool \<Rightarrow> string \<Rightarrow> error option"
  SetControllerReference :: "string \<Rightarrow> error option"
  Create_Config :: "bool \<Rightarrow> error option"
  Create_StatefulService :: "error option"
  StatefulServer :: "error option"
  CreateOrUpdate_StatefulSet :: "error option"
  AllocateKubeletPort :: "string \<times> string \<Rightarrow> error + int"
  AllocateWebhookPort :: "string \<times> string \<Rightarrow> error + int"
  EnsureResources :: "ResourceEnsurer \<Rightarrow> error option"
  Delete_Ingress :: "error option"
  CreateOrUpdate_Ingress :: "error option"
  GenerateBootstrapData :: "string \<Rightarrow> string \<Rightarrow> error option"
  Generate_Kubeconfig :: "string \<Rightarrow> error option"
  clientcmd_Write :: "error option"
  CreateOrUpdate_Secret :: "string \<Rightarrow> error option"
  SharedAgentAccountName :: "string \<Rightarrow> string"
  Get_ClusterRoleBinding :: "string \<Rightarrow> error + Subject list"
  Update_ClusterRoleBinding :: "string \<Rightarrow> Subject list \<Rightarrow> error option"

subsection \<open>Steps\<close>

text \<open>
  A step takes the Cluster and returns the events it caused, the Cluster as it left it,
  and its error or its value. \<open>andThen\<close> is the Go idiom
  \<^verbatim>\<open>if err != nil { return err }\<close>: the rest runs on the Cluster the step left, unless
  the step failed.
\<close>

type_synonym 'a outcome = "event list \<times> Cluster \<times> (error + 'a)"

definition andThen :: "'a outcome \<Rightarrow> ('a \<Rightarrow> Cluster \<Rightarrow> 'b outcome) \<Rightarrow> 'b outcome" where
  "andThen m f =
     (case m of
        (t, c, Inl e) \<Rightarrow> (t, c, Inl e)
      | (t, c, Inr x) \<Rightarrow> (case f x c of (t', c', r) \<Rightarrow> (t @ t', c', r)))"

definition succeed :: "'a \<Rightarrow> Cluster \<Rightarrow> 'a outcome" where
  "succeed x c = ([], c, Inr x)"

definition call :: "event \<Rightarrow> error + 'a \<Rightarrow> Cluster \<Rightarrow> 'a outcome" where
  "call ev answer c = ([ev], c, answer)"

definition check :: "error option \<Rightarrow> error + unit" where
  "check err = (case err of None \<Rightarrow> Inr () | Some e \<Rightarrow> Inl e)"

definition events :: "'a outcome \<Rightarrow> event list" where
  "events m = fst m"

definition cluster_of :: "'a outcome \<Rightarrow> Cluster" where
  "cluster_of m = fst (snd m)"

definition result :: "'a outcome \<Rightarrow> error + 'a" where
  "result m = snd (snd m)"

definition error_of :: "unit outcome \<Rightarrow> error option" where
  "error_of m = (case result m of Inl e \<Rightarrow> Some e | Inr _ \<Rightarrow> None)"

subsubsection \<open>validate\<close>

definition validate :: "Cluster \<Rightarrow> VirtualClusterPolicy \<Rightarrow> error option" where
  "validate cluster policy =
     (if Name cluster = ClusterInvalidName
      then Some (Wrapped ''invalid cluster name'' ErrClusterValidation)
      else if Mode (Spec cluster) \<noteq> AllowedMode policy
      then Some (Wrapped ''mode is not allowed by the policy'' ErrClusterValidation)
      else None)"

subsubsection \<open>lookupServiceCIDR\<close>

text \<open>
  The loop over the arguments of the kube-apiserver container: the first argument with
  the flag's prefix decides, a value that does not parse ends the loop (\<^verbatim>\<open>break\<close>).
\<close>

fun scanArgs :: "ClusterReconciler \<Rightarrow> string list \<Rightarrow> string option" where
  "scanArgs r [] = None"
| "scanArgs r (arg # args) =
     (if HasPrefix arg ''--service-cluster-ip-range=''
      then (case ParseCIDR r (TrimPrefix arg ''--service-cluster-ip-range='') of
              Inl err \<Rightarrow> None
            | Inr serviceCIDRAddr \<Rightarrow> Some serviceCIDRAddr)
      else scanArgs r args)"

text \<open>
  The second strategy: the kube-apiserver Pods are listed (a not-found error of the
  listing is ignored and leaves the list empty), and the first Pod's first container is
  scanned. When nothing is found the answer is the empty string with no error.
\<close>

definition lookupFromPods :: "ClusterReconciler \<Rightarrow> event list \<times> (error + string)" where
  "lookupFromPods r =
     (let podList = (case List_apiServerPods r of
                       Inl err \<Rightarrow> if \<not> IsNotFound err then Inl err else Inr []
                     | Inr items \<Rightarrow> Inr items)
      in case podList of
           Inl err \<Rightarrow> ([List_apiServerPods_ev], Inl err)
         | Inr [] \<Rightarrow> ([List_apiServerPods_ev], Inr [])
         | Inr (apiServerPod # _) \<Rightarrow>
             (case scanArgs r (Args (Container0 apiServerPod)) of
                Some serviceCIDR \<Rightarrow> ([List_apiServerPods_ev], Inr serviceCIDR)
              | None \<Rightarrow> ([List_apiServerPods_ev], Inr [])))"

text \<open>
  The first strategy: the error text of the failing service creation is split at the
  hint; with a hint, its value is parsed and the function returns, with the network or
  with the parse error. Without an error or without a hint the second strategy runs.
\<close>

definition lookupServiceCIDR :: "ClusterReconciler \<Rightarrow> event list \<times> (error + string)" where
  "lookupServiceCIDR r =
     (case Create_failingSvc r of
        None \<Rightarrow> (case lookupFromPods r of (t, res) \<Rightarrow> (Create_failingSvc_ev # t, res))
      | Some errText \<Rightarrow>
          (let splittedErrMsg = Split errText ''The range of valid IPs is ''
           in if length splittedErrMsg > 1
              then ([Create_failingSvc_ev], ParseCIDR r (TrimSpace (splittedErrMsg ! 1)))
              else (case lookupFromPods r of (t, res) \<Rightarrow> (Create_failingSvc_ev # t, res))))"

subsubsection \<open>The steps of reconcile that ensure owned resources\<close>

definition compute :: "error option \<Rightarrow> Cluster \<Rightarrow> unit outcome" where
  "compute err c = ([], c, check err)"

definition unlessAlreadyExists :: "error option \<Rightarrow> error option" where
  "unlessAlreadyExists err =
     (case err of None \<Rightarrow> None | Some e \<Rightarrow> if \<not> IsAlreadyExists e then Some e else None)"

definition ensureNetworkPolicy :: "ClusterReconciler \<Rightarrow> Cluster \<Rightarrow> unit outcome" where
  "ensureNetworkPolicy r cluster =
     (if PolicyName (Status cluster) \<noteq> []
      then call (Delete_NetworkPolicy_ev (Namespace cluster))
             (check (IgnoreNotFound (Delete_NetworkPolicy r))) cluster
      else call (CreateOrUpdate_NetworkPolicy_ev (Namespace cluster)
                   (StatusClusterCIDR (Status cluster)))
             (check (CreateOrUpdate_NetworkPolicy r)) cluster)"

definition ensureClusterService :: "ClusterReconciler \<Rightarrow> Cluster \<Rightarrow> string outcome" where
  "ensureClusterService r cluster =
     call CreateOrUpdate_Service_ev (CreateOrUpdate_Service r) cluster"

definition createClusterConfigs :: "ClusterReconciler \<Rightarrow> string \<Rightarrow> Cluster \<Rightarrow> unit outcome" where
  "createClusterConfigs r serviceIP cluster =
     andThen (compute (server_Config r True serviceIP) cluster) (\<lambda>_ cluster.
     andThen (compute (SetControllerReference r ''initServerConfig'') cluster) (\<lambda>_ cluster.
     andThen (call (Create_Config_ev True serviceIP)
                (check (unlessAlreadyExists (Create_Config r True))) cluster) (\<lambda>_ cluster.
     andThen (compute (server_Config r False serviceIP) cluster) (\<lambda>_ cluster.
     andThen (compute (SetControllerReference r ''serverConfig'') cluster) (\<lambda>_ cluster.
     call (Create_Config_ev False serviceIP)
       (check (unlessAlreadyExists (Create_Config r False))) cluster)))))"

definition server :: "ClusterReconciler \<Rightarrow> Cluster \<Rightarrow> unit outcome" where
  "server r cluster =
     andThen (compute (SetControllerReference r ''serverStatefulService'') cluster) (\<lambda>_ cluster.
     andThen (call Create_StatefulService_ev
                (check (unlessAlreadyExists (Create_StatefulService r))) cluster) (\<lambda>_ cluster.
     andThen (compute (StatefulServer r) cluster) (\<lambda>_ cluster.
     call CreateOrUpdate_StatefulSet_ev (check (CreateOrUpdate_StatefulSet r)) cluster)))"

text \<open>
  \<^verbatim>\<open>ensureAgent\<close>: in shared mode with host-node mirroring each port is written to the
  status right after its allocation, before the next call.
\<close>

definition allocatePorts :: "ClusterReconciler \<Rightarrow> Cluster \<Rightarrow> (int \<times> int) outcome" where
  "allocatePorts r cluster =
     (if MirrorHostNodes (Spec cluster)
      then andThen (call AllocateKubeletPort_ev
                      (AllocateKubeletPort r (Namespace cluster, Name cluster)) cluster)
             (\<lambda>kubeletPort cluster.
                let cluster = cluster\<lparr>Status := (Status cluster)\<lparr>KubeletPort := kubeletPort\<rparr>\<rparr>
                in andThen (call AllocateWebhookPort_ev
                              (AllocateWebhookPort r (Namespace cluster, Name cluster)) cluster)
                     (\<lambda>webhookPort cluster.
                        let cluster = cluster\<lparr>Status := (Status cluster)\<lparr>WebhookPort := webhookPort\<rparr>\<rparr>
                        in succeed (kubeletPort, webhookPort) cluster))
      else succeed (10250, 9443) cluster)"

definition ensureAgent :: "ClusterReconciler \<Rightarrow> string \<Rightarrow> string \<Rightarrow> Cluster \<Rightarrow> unit outcome" where
  "ensureAgent r serviceIP token cluster =
     (if Mode (Spec cluster) = VirtualNodeMode
      then (let agentEnsurer = VirtualAgent serviceIP token (K3SImage r) (K3SImagePullPolicy r)
            in call (EnsureResources_ev agentEnsurer) (check (EnsureResources r agentEnsurer)) cluster)
      else andThen (allocatePorts r cluster) (\<lambda>(kubeletPort, webhookPort) cluster.
             let agentEnsurer = SharedAgent serviceIP (SharedAgentImage r)
                                  (SharedAgentImagePullPolicy r) token kubeletPort webhookPort
             in call (EnsureResources_ev agentEnsurer) (check (EnsureResources r agentEnsurer)) cluster))"

definition ensureIngress :: "ClusterReconciler \<Rightarrow> Cluster \<Rightarrow> unit outcome" where
  "ensureIngress r cluster =
     (if Expose (Spec cluster) = None \<or> Option.bind (Expose (Spec cluster)) Ingress = None
      then call Delete_Ingress_ev (check (IgnoreNotFound (Delete_Ingress r))) cluster
      else call CreateOrUpdate_Ingress_ev (check (CreateOrUpdate_Ingress r)) cluster)"

definition ensureBootstrapSecret :: "ClusterReconciler \<Rightarrow> string \<Rightarrow> string \<Rightarrow> Cluster \<Rightarrow> unit outcome" where
  "ensureBootstrapSecret r serviceIP token cluster =
     andThen (call (GenerateBootstrapData_ev serviceIP token)
                (check (GenerateBootstrapData r serviceIP token)) cluster) (\<lambda>_ cluster.
     call (CreateOrUpdate_Secret_ev ''bootstrap'') (check (CreateOrUpdate_Secret r ''bootstrap'')) cluster)"

definition ensureKubeconfigSecret :: "ClusterReconciler \<Rightarrow> string \<Rightarrow> Cluster \<Rightarrow> unit outcome" where
  "ensureKubeconfigSecret r serviceIP cluster =
     andThen (call (Generate_Kubeconfig_ev serviceIP)
                (check (Generate_Kubeconfig r serviceIP)) cluster) (\<lambda>_ cluster.
     andThen (compute (clientcmd_Write r) cluster) (\<lambda>_ cluster.
     call (CreateOrUpdate_Secret_ev ''kubeconfig'') (check (CreateOrUpdate_Secret r ''kubeconfig'')) cluster))"

text \<open>
  \<^verbatim>\<open>bindClusterRoles\<close>: the loop over the two role bindings joins the errors and goes on.
\<close>

fun bindClusterRoles_loop ::
  "ClusterReconciler \<Rightarrow> Cluster \<Rightarrow> string list \<Rightarrow> error option \<Rightarrow> event list \<times> error option" where
  "bindClusterRoles_loop r cluster [] err = ([], err)"
| "bindClusterRoles_loop r cluster (clusterRole # rest) err =
     (case Get_ClusterRoleBinding r clusterRole of
        Inl getErr \<Rightarrow>
          (case bindClusterRoles_loop r cluster rest
                  (errors_Join err (Wrapped (''failed to get or find ClusterRoleBinding '' @ clusterRole) getErr))
           of (t, e) \<Rightarrow> (Get_ClusterRoleBinding_ev clusterRole # t, e))
      | Inr subjects \<Rightarrow>
          (let clusterSubject = \<lparr>SubjectKind = ServiceAccountKind,
                                  SubjectName = SharedAgentAccountName r (Name cluster),
                                  SubjectNamespace = Namespace cluster\<rparr>
           in if clusterSubject \<notin> set subjects
              then (let subjects' = subjects @ [clusterSubject];
                        err' = (case Update_ClusterRoleBinding r clusterRole subjects' of
                                  Some updateErr \<Rightarrow>
                                    errors_Join err
                                      (Wrapped (''failed to update ClusterRoleBinding '' @ clusterRole) updateErr)
                                | None \<Rightarrow> err)
                    in case bindClusterRoles_loop r cluster rest err' of
                         (t, e) \<Rightarrow> (Get_ClusterRoleBinding_ev clusterRole
                                      # Update_ClusterRoleBinding_ev clusterRole subjects' # t, e))
              else (case bindClusterRoles_loop r cluster rest err of
                      (t, e) \<Rightarrow> (Get_ClusterRoleBinding_ev clusterRole # t, e))))"

definition bindClusterRoles :: "ClusterReconciler \<Rightarrow> Cluster \<Rightarrow> unit outcome" where
  "bindClusterRoles r cluster =
     (case bindClusterRoles_loop r cluster [''k3k-kubelet-node'', ''k3k-priorityclass''] None of
        (t, err) \<Rightarrow> (t, cluster, check err))"

subsubsection \<open>reconcile\<close>

text \<open>
  The body of \<^verbatim>\<open>reconcile\<close> in its consecutive blocks: the look-up of the namespace
  and of its policy with the validation (\<open>checkPolicy\<close>), the resolution of the host
  version (\<open>resolveHostVersion\<close>), the token, the address ranges (\<open>assignCIDRs\<close>) and the
  steps that ensure the owned resources (\<open>ensureOwned\<close>). \<open>converge\<close> is everything after
  the validation.
\<close>

definition checkPolicy :: "ClusterReconciler \<Rightarrow> Cluster \<Rightarrow> unit outcome" where
  "checkPolicy r cluster =
     andThen (call (Get_Namespace_ev (Namespace cluster))
                (Get_Namespace r (Namespace cluster)) cluster) (\<lambda>ns cluster.
       let found = (Labels ns PolicyNameLabelKey \<noteq> None);
           policyName = (case Labels ns PolicyNameLabelKey of None \<Rightarrow> [] | Some v \<Rightarrow> v);
           cluster = cluster\<lparr>Status := (Status cluster)\<lparr>PolicyName := policyName\<rparr>\<rparr>
       in if found \<and> policyName \<noteq> []
          then andThen (call (Get_Policy_ev policyName) (Get_Policy r policyName) cluster)
                 (\<lambda>policy cluster. compute (validate cluster policy) cluster)
          else succeed () cluster)"

definition resolveHostVersion :: "ClusterReconciler \<Rightarrow> Cluster \<Rightarrow> unit outcome" where
  "resolveHostVersion r cluster =
     (if Version (Spec cluster) = [] \<and> HostVersion (Status cluster) = []
      then andThen (call ServerVersion_ev (ServerVersion r) cluster) (\<lambda>gitVersion cluster.
             let k8sVersion = Split gitVersion ''+'' ! 0
             in succeed ()
                  (cluster\<lparr>Status := (Status cluster)\<lparr>HostVersion := k8sVersion @ ''-k3s1''\<rparr>\<rparr>))
      else succeed () cluster)"

definition assignClusterCIDR :: "Cluster \<Rightarrow> Cluster" where
  "assignClusterCIDR cluster =
     (let cluster = cluster\<lparr>Status := (Status cluster)\<lparr>StatusClusterCIDR := ClusterCIDR (Spec cluster)\<rparr>\<rparr>
      in if StatusClusterCIDR (Status cluster) = []
         then cluster\<lparr>Status := (Status cluster)\<lparr>StatusClusterCIDR :=
                (if Mode (Spec cluster) = SharedClusterMode
                 then defaultSharedClusterCIDR else defaultVirtualClusterCIDR)\<rparr>\<rparr>
         else cluster)"

definition assignServiceCIDR :: "ClusterReconciler \<Rightarrow> Cluster \<Rightarrow> unit outcome" where
  "assignServiceCIDR r cluster =
     (let cluster = cluster\<lparr>Status := (Status cluster)\<lparr>StatusServiceCIDR := ServiceCIDR (Spec cluster)\<rparr>\<rparr>
      in if StatusServiceCIDR (Status cluster) = []
         then (let (t, cluster) =
                     (if Mode (Spec cluster) = SharedClusterMode
                      then (case lookupServiceCIDR r of
                              (t, Inl err) \<Rightarrow>
                                (t, cluster\<lparr>Status := (Status cluster)\<lparr>StatusServiceCIDR := defaultSharedServiceCIDR\<rparr>\<rparr>)
                            | (t, Inr serviceCIDR) \<Rightarrow>
                                (t, cluster\<lparr>Status := (Status cluster)\<lparr>StatusServiceCIDR := serviceCIDR\<rparr>\<rparr>))
                      else ([], cluster));
                   cluster =
                     (if Mode (Spec cluster) = VirtualClusterMode
                      then cluster\<lparr>Status := (Status cluster)\<lparr>StatusServiceCIDR := defaultVirtualServiceCIDR\<rparr>\<rparr>
                      else cluster)
               in (t, cluster, Inr ()))
         else ([], cluster, Inr ()))"

definition assignCIDRs :: "ClusterReconciler \<Rightarrow> Cluster \<Rightarrow> unit outcome" where
  "assignCIDRs r cluster = assignServiceCIDR r (assignClusterCIDR cluster)"

definition ensureOwned :: "ClusterReconciler \<Rightarrow> string \<Rightarrow> Cluster \<Rightarrow> unit outcome" where
  "ensureOwned r token cluster =
     andThen (ensureNetworkPolicy r cluster) (\<lambda>_ cluster.
     andThen (ensureClusterService r cluster) (\<lambda>serviceIP cluster.
     andThen (createClusterConfigs r serviceIP cluster) (\<lambda>_ cluster.
     andThen (server r cluster) (\<lambda>_ cluster.
     andThen (ensureAgent r serviceIP token cluster) (\<lambda>_ cluster.
     andThen (ensureIngress r cluster) (\<lambda>_ cluster.
     andThen (ensureBootstrapSecret r serviceIP token cluster) (\<lambda>_ cluster.
     andThen (ensureKubeconfigSecret r serviceIP cluster) (\<lambda>_ cluster.
     bindClusterRoles r cluster))))))))"

definition converge :: "ClusterReconciler \<Rightarrow> Cluster \<Rightarrow> unit outcome" where
  "converge r cluster =
     andThen (resolveHostVersion r cluster) (\<lambda>_ cluster.
     andThen (call token_ev (c_token r cluster) cluster) (\<lambda>token cluster.
     andThen (assignCIDRs r cluster) (\<lambda>_ cluster.
     ensureOwned r token cluster)))"

definition reconcile :: "ClusterReconciler \<Rightarrow> Cluster \<Rightarrow> unit outcome" where
  "reconcile r cluster =
     andThen (checkPolicy r cluster) (\<lambda>_ cluster. converge r cluster)"

definition reconcileCluster :: "ClusterReconciler \<Rightarrow> Cluster \<Rightarrow> event list \<times> Cluster \<times> error option" where
  "reconcileCluster r cluster =
     (let m = reconcile r cluster;
          err = error_of m
      in (events m, updateStatus r (cluster_of m) err, err))"

subsubsection \<open>Reconcile\<close>

text \<open>
  \<^verbatim>\<open>equality.Semantic.DeepEqual\<close> on the status and on the spec is the equality of the
  records (an empty list and a nil one are the same value here, as they are for the
  semantic equality). A write answers with its error only: that the resource client
  refreshes the object from the reply of the server is not modelled.

  The end of \<^verbatim>\<open>Reconcile\<close>, after the status has been written: the error of the
  convergence is classified, and without one the spec is written when it changed.
\<close>

definition classify ::
  "ClusterReconciler \<Rightarrow> Cluster \<Rightarrow> Cluster \<Rightarrow> error option \<Rightarrow> event list \<times> Result \<times> error option" where
  "classify r orig cluster reconcilerErr =
     (case reconcilerErr of
        Some e \<Rightarrow>
          if errors_Is e ErrServerNotReady
          then ([], Result_empty\<lparr>RequeueAfter := Second * 10\<rparr>, None)
          else ([], Result_empty, Some e)
      | None \<Rightarrow>
          if Spec orig \<noteq> Spec cluster
          then ([Update_ev cluster], Result_empty, Update r cluster)
          else ([], Result_empty, None))"

definition initialCondition :: Condition where
  "initialCondition =
     \<lparr>CondType = ConditionReady, CondStatus = ConditionFalse, ObservedGeneration = 0,
      LastTransitionTime = 0, Reason = ReasonProvisioning,
      Message = ''Cluster is being provisioned''\<rparr>"

definition Reconcile :: "ClusterReconciler \<Rightarrow> string \<times> string \<Rightarrow> event list \<times> Result \<times> error option" where
  "Reconcile r req =
     (case Get_Cluster r req of
        Inl err \<Rightarrow> ([Get_Cluster_ev req], Result_empty, IgnoreNotFound (Some err))
      | Inr cluster \<Rightarrow>
          if \<not> IsZero (DeletionTimestamp cluster)
          then (case finalizeCluster r cluster of
                  (t, res) \<Rightarrow> (Get_Cluster_ev req # finalizeCluster_ev cluster # t, res))
          else if Phase (Status cluster) = [] \<or> Phase (Status cluster) = ClusterUnknown
          then (let cluster = cluster\<lparr>Status := (Status cluster)
                                \<lparr>Phase := ClusterProvisioning,
                                 Conditions := SetStatusCondition (Now r)
                                                 (Conditions (Status cluster)) initialCondition\<rparr>\<rparr>
                in case Status_Update r cluster of
                     Some err \<Rightarrow> ([Get_Cluster_ev req, Status_Update_ev cluster], Result_empty, Some err)
                   | None \<Rightarrow> ([Get_Cluster_ev req, Status_Update_ev cluster],
                              Result_empty\<lparr>Requeue := True\<rparr>, None))
          else (case AddFinalizer cluster clusterFinalizerName of
                  (cluster, True) \<Rightarrow>
                    (case Update r cluster of
                       Some err \<Rightarrow> ([Get_Cluster_ev req, Update_ev cluster], Result_empty, Some err)
                     | None \<Rightarrow> ([Get_Cluster_ev req, Update_ev cluster],
                                Result_empty\<lparr>Requeue := True\<rparr>, None))
                | (cluster, False) \<Rightarrow>
                    (let orig = cluster
                     in case reconcileCluster r cluster of
                          (t, cluster, reconcilerErr) \<Rightarrow>
                            if Status orig \<noteq> Status cluster
                            then (case Status_Update r cluster of
                                    Some err \<Rightarrow>
                                      (Get_Cluster_ev req # t @ [Status_Update_ev cluster],
                                       Result_empty, Some err)
                                  | None \<Rightarrow>
                                      (case classify r orig cluster reconcilerErr of
                                         (t', res) \<Rightarrow>
                                           (Get_Cluster_ev req # t @ [Status_Update_ev cluster] @ t', res)))
                            else (case classify r orig cluster reconcilerErr of
                                    (t', res) \<Rightarrow> (Get_Cluster_ev req # t @ t', res)))))"

subsection \<open>Notions used by the properties\<close>

text \<open>
  A pass reaches the convergence procedure when the Cluster is loaded, carries no
  deletion timestamp, has a phase other than the unset and the unknown one, and
  already carries the finalizer.
\<close>

definition reachesConvergence :: "ClusterReconciler \<Rightarrow> string \<times> string \<Rightarrow> Cluster \<Rightarrow> bool" where
  "reachesConvergence r req cluster =
     (Get_Cluster r req = Inr cluster \<and> IsZero (DeletionTimestamp cluster) \<and>
      Phase (Status cluster) \<noteq> [] \<and> Phase (Status cluster) \<noteq> ClusterUnknown \<and>
      clusterFinalizerName \<in> set (Finalizers cluster))"

fun isStatusWrite :: "event \<Rightarrow> bool" where
  "isStatusWrite (Status_Update_ev c) = True"
| "isStatusWrite ev = False"

text \<open>The events of the steps that follow the validation.\<close>

fun convergenceEvent :: "event \<Rightarrow> bool" where
  "convergenceEvent (Get_Cluster_ev req) = False"
| "convergenceEvent (Get_Namespace_ev n) = False"
| "convergenceEvent (Get_Policy_ev p) = False"
| "convergenceEvent (Status_Update_ev c) = False"
| "convergenceEvent (Update_ev c) = False"
| "convergenceEvent (finalizeCluster_ev c) = False"
| "convergenceEvent ev = True"

text \<open>
  The status that a pass leaves persisted: the one of the last status write that the
  resource API accepted, if there is one.
\<close>

fun persistedStatus :: "ClusterReconciler \<Rightarrow> event list \<Rightarrow> ClusterStatus option" where
  "persistedStatus r [] = None"
| "persistedStatus r (ev # evs) =
     (case persistedStatus r evs of
        Some s \<Rightarrow> Some s
      | None \<Rightarrow>
          (case ev of
             Status_Update_ev c \<Rightarrow> if Status_Update r c = None then Some (Status c) else None
           | _ \<Rightarrow> None))"

text \<open>The Cluster with both port fields of its status blanked.\<close>

definition portless :: "Cluster \<Rightarrow> Cluster" where
  "portless c = c\<lparr>Status := (Status c)\<lparr>KubeletPort := 0, WebhookPort := 0\<rparr>\<rparr>"

subsection \<open>A sample reconciler\<close>

text \<open>
  Modelled from the spec: \<^verbatim>\<open>updateStatus\<close> is not part of the sources at hand. The
  general theorems below hold for every \<open>updateStatus\<close>; the closed examples use this
  one, which follows the spec's data model: the outcome of a pass is recorded in the
  phase and in the \<^verbatim>\<open>Ready\<close> condition, and nothing else of the status is touched. A
  pass without error makes the Cluster \<^verbatim>\<open>Running\<close> and ready; a failed pass leaves the
  phase and records the failure in the condition.
\<close>

definition updateStatus_spec :: "Time \<Rightarrow> Cluster \<Rightarrow> error option \<Rightarrow> Cluster" where
  "updateStatus_spec now cluster reconcileErr =
     (case reconcileErr of
        None \<Rightarrow>
          cluster\<lparr>Status := (Status cluster)
            \<lparr>Phase := ''Running'',
             Conditions := SetStatusCondition now (Conditions (Status cluster))
               \<lparr>CondType = ConditionReady, CondStatus = ''True'', ObservedGeneration = 0,
                LastTransitionTime = 0, Reason = ''Running'', Message = []\<rparr>\<rparr>\<rparr>
      | Some e \<Rightarrow>
          cluster\<lparr>Status := (Status cluster)
            \<lparr>Conditions := SetStatusCondition now (Conditions (Status cluster))
               \<lparr>CondType = ConditionReady, CondStatus = ConditionFalse, ObservedGeneration = 0,
                LastTransitionTime = 0,
                Reason = (if errors_Is e ErrServerNotReady then ReasonProvisioning
                          else if errors_Is e ErrClusterValidation then ''ValidationFailed''
                          else ''Failed''),
                Message = []\<rparr>\<rparr>\<rparr>)"

text \<open>
  A shared-mode Cluster with host-node mirroring, past its initial status write and
  carrying the finalizer, with nothing resolved yet.
\<close>

definition sampleCluster :: Cluster where
  "sampleCluster =
     \<lparr>Name = ''demo'', Namespace = ''tenant'', DeletionTimestamp = None,
      Finalizers = [''cluster.k3k.io/finalizer''],
      Spec = \<lparr>Version = [], Mode = ''shared'', ClusterCIDR = [], ServiceCIDR = [],
               MirrorHostNodes = True, Expose = None\<rparr>,
      Status = \<lparr>HostVersion = [], StatusClusterCIDR = [], StatusServiceCIDR = [],
                 PolicyName = [], KubeletPort = 0, WebhookPort = 0,
                 Phase = ''Provisioning'', Conditions = []\<rparr>\<rparr>"

text \<open>
  A host on which every collaborator succeeds: the namespace carries no policy label,
  the failing service creation is refused with a range hint, no kube-apiserver Pod is
  listed, and the parser knows three texts.
\<close>

definition sampleParseCIDR :: "string \<Rightarrow> error + string" where
  "sampleParseCIDR s =
     (if s = ''10.43.0.0/16'' then Inr ''10.43.0.0/16''
      else if s = ''10.96.0.1/12'' then Inr ''10.96.0.0/12''
      else if s = ''172.20.3.7/16'' then Inr ''172.20.0.0/16''
      else Inl (OtherError ''invalid CIDR address''))"

definition sampleReconciler :: ClusterReconciler where
  "sampleReconciler =
     \<lparr>SharedAgentImage = ''rancher/k3k-kubelet'', SharedAgentImagePullPolicy = [],
      K3SImage = ''rancher/k3s'', K3SImagePullPolicy = [],
      Now = 7,
      Get_Cluster = (\<lambda>req. Inr sampleCluster),
      Get_Namespace = (\<lambda>n. Inr \<lparr>Labels = Map.empty\<rparr>),
      Get_Policy = (\<lambda>p. Inl (StatusError StatusReasonNotFound 404)),
      Status_Update = (\<lambda>c. None),
      Update = (\<lambda>c. None),
      finalizeCluster = (\<lambda>c. ([], Result_empty, None)),
      updateStatus = updateStatus_spec 7,
      ServerVersion = Inr ''v1.31.2+k3s1'',
      c_token = (\<lambda>c. Inr ''secret''),
      Create_failingSvc = Some ''Invalid value: The range of valid IPs is 10.43.0.0/16'',
      List_apiServerPods = Inr [],
      ParseCIDR = sampleParseCIDR,
      Delete_NetworkPolicy = None,
      CreateOrUpdate_NetworkPolicy = None,
      CreateOrUpdate_Service = Inr ''10.43.0.10'',
      server_Config = (\<lambda>init ip. None),
      SetControllerReference = (\<lambda>obj. None),
      Create_Config = (\<lambda>init. None),
      Create_StatefulService = None,
      StatefulServer = None,
      CreateOrUpdate_StatefulSet = None,
      AllocateKubeletPort = (\<lambda>cfg. Inr 30001),
      AllocateWebhookPort = (\<lambda>cfg. Inr 30002),
      EnsureResources = (\<lambda>a. None),
      Delete_Ingress = None,
      CreateOrUpdate_Ingress = None,
      GenerateBootstrapData = (\<lambda>ip tok. None),
      Generate_Kubeconfig = (\<lambda>ip. None),
      clientcmd_Write = None,
      CreateOrUpdate_Secret = (\<lambda>k. None),
      SharedAgentAccountName = (\<lambda>n. ''k3k-'' @ n @ ''-kubelet''),
      Get_ClusterRoleBinding = (\<lambda>n. Inr []),
      Update_ClusterRoleBinding = (\<lambda>n subjects. None)\<rparr>"

subsection \<open>Variants of the sample\<close>

text \<open>A Cluster as it is first seen: no phase, no finalizer.\<close>

definition newCluster :: Cluster where
  "newCluster = sampleCluster\<lparr>Finalizers := [],
                  Status := (Status sampleCluster)\<lparr>Phase := []\<rparr>\<rparr>"

text \<open>A host whose port allocator has a kubelet port but no webhook port left.\<close>

definition noWebhookPort :: ClusterReconciler where
  "noWebhookPort =
     sampleReconciler\<lparr>AllocateWebhookPort := (\<lambda>cfg. Inl (OtherError ''no free port''))\<rparr>"

text \<open>A host on which the server of the virtual cluster does not answer yet.\<close>

definition serverNotReady :: ClusterReconciler where
  "serverNotReady =
     sampleReconciler\<lparr>GenerateBootstrapData :=
       (\<lambda>ip tok. Some (Wrapped ''bootstrap data'' ErrServerNotReady))\<rparr>"

text \<open>A host whose namespaces are bound to a policy that allows the virtual mode only.\<close>

definition policyHost :: ClusterReconciler where
  "policyHost =
     sampleReconciler
       \<lparr>Get_Namespace := (\<lambda>n. Inr \<lparr>Labels = [''policy.k3k.io/policy-name'' \<mapsto> ''strict'']\<rparr>),
        Get_Policy := (\<lambda>p. Inr \<lparr>PolicyObjName = p, AllowedMode = ''virtual''\<rparr>)\<rparr>"

text \<open>The sample Cluster under the reserved name.\<close>

definition systemCluster :: Cluster where
  "systemCluster = sampleCluster\<lparr>Name := ''system''\<rparr>"

text \<open>The sample Cluster with a host version and address ranges already recorded.\<close>

definition resolvedCluster :: Cluster where
  "resolvedCluster =
     sampleCluster\<lparr>Status := (Status sampleCluster)
       \<lparr>HostVersion := ''v1.30.0-k3s1'', StatusClusterCIDR := ''10.42.0.0/16'',
        StatusServiceCIDR := ''10.43.0.0/16''\<rparr>\<rparr>"

text \<open>
  A host whose refusal of the failing service carries no range hint and which runs no
  kube-apiserver Pod (its API server is not a Pod).
\<close>

definition noHint :: ClusterReconciler where
  "noHint =
     sampleReconciler\<lparr>Create_failingSvc := Some ''admission webhook denied the request'',
                       List_apiServerPods := Inr []\<rparr>"

text \<open>A host whose hint is not an address block.\<close>

definition badHint :: ClusterReconciler where
  "badHint =
     sampleReconciler\<lparr>Create_failingSvc := Some ''Invalid value: The range of valid IPs is unknown''\<rparr>"

text \<open>
  A host without a hint whose kube-apiserver Pod carries the flag; the network of the
  address in the flag is \<^verbatim>\<open>10.96.0.0/12\<close>.
\<close>

definition flagHost :: ClusterReconciler where
  "flagHost =
     sampleReconciler
       \<lparr>Create_failingSvc := None,
        List_apiServerPods :=
          Inr [\<lparr>Container0 = \<lparr>Args = [''kube-apiserver'', ''--service-cluster-ip-range=10.96.0.1/12'']\<rparr>,
                 MoreContainers = []\<rparr>]\<rparr>"

text \<open>
  The Cluster with recorded address ranges after its spec was given another cluster
  CIDR.
\<close>

definition respecCluster :: Cluster where
  "respecCluster =
     resolvedCluster\<lparr>Spec := (Spec resolvedCluster)\<lparr>ClusterCIDR := ''10.99.0.0/16''\<rparr>\<rparr>"

text \<open>A Cluster whose spec names both address ranges, recorded as they are.\<close>

definition pinnedCluster :: Cluster where
  "pinnedCluster =
     sampleCluster
       \<lparr>Spec := (Spec sampleCluster)\<lparr>ClusterCIDR := ''10.99.0.0/16'', ServiceCIDR := ''10.98.0.0/16''\<rparr>,
        Status := (Status sampleCluster)\<lparr>StatusClusterCIDR := ''10.99.0.0/16'',
                                          StatusServiceCIDR := ''10.98.0.0/16''\<rparr>\<rparr>"

text \<open>The two texts that \<^verbatim>\<open>lookupServiceCIDR\<close> looks for.\<close>

definition rangeHint :: string where
  "rangeHint = ''The range of valid IPs is ''"

definition rangeFlag :: string where
  "rangeFlag = ''--service-cluster-ip-range=''"

text \<open>What the claims about the address ranges look at: the spec and the two recorded ranges.\<close>

definition cidrView :: "Cluster \<Rightarrow> ClusterSpec \<times> string \<times> string" where
  "cidrView c = (Spec c, StatusClusterCIDR (Status c), StatusServiceCIDR (Status c))"

text \<open>What the claims about the ports look at, and what the allocation of the ports reads.\<close>

definition ports :: "Cluster \<Rightarrow> int \<times> int" where
  "ports c = (KubeletPort (Status c), WebhookPort (Status c))"

definition portView :: "Cluster \<Rightarrow> string \<times> string \<times> ClusterSpec \<times> int \<times> int" where
  "portView c = (Namespace c, Name c, Spec c, KubeletPort (Status c), WebhookPort (Status c))"

text \<open>
  A host whose hint is followed by a no-break space (U+00A0, the bytes C2 A0) and a
  line feed.
\<close>

definition nbspHint :: ClusterReconciler where
  "nbspHint =
     sampleReconciler\<lparr>Create_failingSvc :=
       Some (''Invalid value: The range of valid IPs is 10.96.0.1/12'' @ [CHR 0xC2, CHR 0xA0, CHR 0x0A])\<rparr>"

text \<open>A host on which the server does not answer yet and the status write is refused.\<close>

definition refusedWrite :: ClusterReconciler where
  "refusedWrite =
     serverNotReady\<lparr>Status_Update := (\<lambda>c. Some (StatusError (KnownReason ''Conflict'') 409))\<rparr>"

section \<open>Properties\<close>

subsection \<open>Sequencing\<close>

lemma andThen_Inl [simp]: "andThen (t, c, Inl e) f = (t, c, Inl e)"
  by (simp add: andThen_def)

lemma andThen_Inr [simp]: "andThen (t, c, Inr x) f = (case f x c of (t', c', r) \<Rightarrow> (t @ t', c', r))"
  by (simp add: andThen_def)

lemma cluster_of_tuple [simp]: "cluster_of (t, c, res) = c"
  by (simp add: cluster_of_def)

lemma events_tuple [simp]: "events (t, c, res) = t"
  by (simp add: events_def)

lemma result_tuple [simp]: "result (t, c, res) = res"
  by (simp add: result_def)

lemma cluster_of_call [simp]: "cluster_of (call ev a c) = c"
  by (simp add: call_def)

lemma cluster_of_compute [simp]: "cluster_of (compute e c) = c"
  by (simp add: compute_def)

lemma cluster_of_succeed [simp]: "cluster_of (succeed x c) = c"
  by (simp add: succeed_def)

lemma events_call [simp]: "events (call ev a c) = [ev]"
  by (simp add: call_def)

lemma events_compute [simp]: "events (compute e c) = []"
  by (simp add: compute_def)

lemma events_succeed [simp]: "events (succeed x c) = []"
  by (simp add: succeed_def)

lemma andThen_success:
  assumes "result m = Inr x"
  shows "andThen m f = (events m @ events (f x (cluster_of m)),
                        cluster_of (f x (cluster_of m)), result (f x (cluster_of m)))"
proof -
  obtain t c res where m: "m = (t, c, res)" by (cases m)
  obtain t' c' r' where f: "f x c = (t', c', r')" by (cases "f x c")
  from assms m f show ?thesis by simp
qed

lemma andThen_rule:
  assumes "Q (cluster_of m)" and "\<And>c1. Q c1 \<Longrightarrow> P c1"
      and "\<And>x c1. Q c1 \<Longrightarrow> P (cluster_of (f x c1))"
  shows "P (cluster_of (andThen m f))"
proof (cases m)
  case (fields t c1 res)
  with assms(1) have q: "Q c1" by simp
  show ?thesis
  proof (cases res)
    case (Inl e)
    with fields assms(2) [OF q] show ?thesis by simp
  next
    case (Inr x)
    obtain t' c' r' where f: "f x c1 = (t', c', r')" by (cases "f x c1")
    with assms(3) [OF q, of x] have "P c'" by simp
    with fields Inr f show ?thesis by simp
  qed
qed

lemma view_andThen_inv:
  assumes "g (cluster_of m) = g c" and "\<And>x c1. g c1 = g c \<Longrightarrow> g (cluster_of (f x c1)) = g c"
  shows "g (cluster_of (andThen m f)) = g c"
proof (cases m)
  case (fields t c1 res)
  show ?thesis
  proof (cases res)
    case (Inl e)
    with fields assms(1) show ?thesis by simp
  next
    case (Inr x)
    obtain t' c' r' where f: "f x c1 = (t', c', r')" by (cases "f x c1")
    from fields assms(1) have "g c1 = g c" by simp
    from assms(2) [OF this, of x] f have "g c' = g c" by simp
    with fields Inr f show ?thesis by simp
  qed
qed

text \<open>A view of the Cluster that every step of a sequence keeps is kept by the sequence.\<close>

lemma view_andThen:
  assumes "g (cluster_of m) = g c" and "\<And>x c1. g (cluster_of (f x c1)) = g c1"
  shows "g (cluster_of (andThen m f)) = g c"
proof (cases m)
  case (fields t c1 res)
  show ?thesis
  proof (cases res)
    case (Inl e)
    with fields assms(1) show ?thesis by simp
  next
    case (Inr x)
    obtain t' c' r' where f: "f x c1 = (t', c', r')" by (cases "f x c1")
    with assms(2) [of x c1] have "g c' = g c1" by simp
    with fields Inr f assms(1) show ?thesis by simp
  qed
qed

lemma cluster_of_andThen_pure:
  assumes "\<And>x c1. cluster_of (f x c1) = c1"
  shows "cluster_of (andThen m f) = cluster_of m"
  by (rule andThen_rule [where Q = "\<lambda>c1. c1 = cluster_of m"]) (simp_all add: assms)

lemma events_andThen:
  assumes "list_all P (events m)" and "\<And>x c1. list_all P (events (f x c1))"
  shows "list_all P (events (andThen m f))"
proof (cases m)
  case (fields t c1 res)
  show ?thesis
  proof (cases res)
    case (Inl e)
    with fields assms(1) show ?thesis by simp
  next
    case (Inr x)
    obtain t' c' r' where f: "f x c1 = (t', c', r')" by (cases "f x c1")
    with assms(2) [of x c1] have "list_all P t'" by simp
    with fields Inr f assms(1) show ?thesis by simp
  qed
qed

subsection \<open>What the steps do to the Cluster\<close>

lemma view_createClusterConfigs [simp]: "cluster_of (createClusterConfigs r ip c) = c"
  unfolding createClusterConfigs_def
  by (rule view_andThen [where g = "\<lambda>c. c"] | simp)+

lemma view_server [simp]: "cluster_of (server r c) = c"
  unfolding server_def
  by (rule view_andThen [where g = "\<lambda>c. c"] | simp)+

lemma view_ensureNetworkPolicy [simp]: "cluster_of (ensureNetworkPolicy r c) = c"
  by (simp add: ensureNetworkPolicy_def)

lemma view_ensureClusterService [simp]: "cluster_of (ensureClusterService r c) = c"
  by (simp add: ensureClusterService_def)

lemma view_ensureIngress [simp]: "cluster_of (ensureIngress r c) = c"
  by (simp add: ensureIngress_def)

lemma view_ensureBootstrapSecret [simp]: "cluster_of (ensureBootstrapSecret r ip tok c) = c"
  unfolding ensureBootstrapSecret_def
  by (rule view_andThen [where g = "\<lambda>c. c"] | simp)+

lemma view_ensureKubeconfigSecret [simp]: "cluster_of (ensureKubeconfigSecret r ip c) = c"
  unfolding ensureKubeconfigSecret_def
  by (rule view_andThen [where g = "\<lambda>c. c"] | simp)+

lemma view_bindClusterRoles [simp]: "cluster_of (bindClusterRoles r c) = c"
  by (simp add: bindClusterRoles_def split_def del: bindClusterRoles_loop.simps)

lemma cluster_of_checkPolicy:
  "cluster_of (checkPolicy r c) =
     (case Get_Namespace r (Namespace c) of
        Inl e \<Rightarrow> c
      | Inr ns \<Rightarrow> c\<lparr>Status := (Status c)\<lparr>PolicyName :=
                    (case Labels ns PolicyNameLabelKey of None \<Rightarrow> [] | Some v \<Rightarrow> v)\<rparr>\<rparr>)"
  by (auto simp: checkPolicy_def call_def andThen_def succeed_def compute_def Let_def
           split: sum.splits prod.splits)

lemma cluster_of_resolveHostVersion:
  "cluster_of (resolveHostVersion r c) =
     (if Version (Spec c) = [] \<and> HostVersion (Status c) = []
      then (case ServerVersion r of
              Inl e \<Rightarrow> c
            | Inr v \<Rightarrow> c\<lparr>Status := (Status c)\<lparr>HostVersion := Split v ''+'' ! 0 @ ''-k3s1''\<rparr>\<rparr>)
      else c)"
  by (auto simp: resolveHostVersion_def call_def andThen_def succeed_def Let_def
           split: sum.splits prod.splits)

lemma assignClusterCIDR_eq:
  "assignClusterCIDR c =
     c\<lparr>Status := (Status c)\<lparr>StatusClusterCIDR :=
         (if ClusterCIDR (Spec c) = []
          then (if Mode (Spec c) = SharedClusterMode
                then defaultSharedClusterCIDR else defaultVirtualClusterCIDR)
          else ClusterCIDR (Spec c))\<rparr>\<rparr>"
  by (simp add: assignClusterCIDR_def Let_def)

lemma cluster_of_assignServiceCIDR:
  "cluster_of (assignServiceCIDR r c) =
     c\<lparr>Status := (Status c)\<lparr>StatusServiceCIDR :=
         (if ServiceCIDR (Spec c) \<noteq> [] then ServiceCIDR (Spec c)
          else if Mode (Spec c) = VirtualClusterMode then defaultVirtualServiceCIDR
          else if Mode (Spec c) = SharedClusterMode
          then (case snd (lookupServiceCIDR r) of
                  Inl err \<Rightarrow> defaultSharedServiceCIDR
                | Inr serviceCIDR \<Rightarrow> serviceCIDR)
          else [])\<rparr>\<rparr>"
  by (auto simp: assignServiceCIDR_def Let_def split: sum.splits prod.splits)

lemma cluster_of_assignCIDRs:
  "cluster_of (assignCIDRs r c) =
     c\<lparr>Status := (Status c)
        \<lparr>StatusClusterCIDR :=
           (if ClusterCIDR (Spec c) = []
            then (if Mode (Spec c) = SharedClusterMode
                  then defaultSharedClusterCIDR else defaultVirtualClusterCIDR)
            else ClusterCIDR (Spec c)),
         StatusServiceCIDR :=
           (if ServiceCIDR (Spec c) \<noteq> [] then ServiceCIDR (Spec c)
            else if Mode (Spec c) = VirtualClusterMode then defaultVirtualServiceCIDR
            else if Mode (Spec c) = SharedClusterMode
            then (case snd (lookupServiceCIDR r) of
                    Inl err \<Rightarrow> defaultSharedServiceCIDR
                  | Inr serviceCIDR \<Rightarrow> serviceCIDR)
            else [])\<rparr>\<rparr>"
  by (simp add: assignCIDRs_def cluster_of_assignServiceCIDR assignClusterCIDR_eq)

lemma result_assignCIDRs: "result (assignCIDRs r c) = Inr ()"
  by (auto simp: assignCIDRs_def assignServiceCIDR_def Let_def split: sum.splits prod.splits)

lemma portless_allocatePorts: "portless (cluster_of (allocatePorts r c)) = portless c"
  unfolding allocatePorts_def
  by (auto simp: portless_def call_def andThen_def succeed_def Let_def split: sum.splits prod.splits)

lemma portless_ensureAgent: "portless (cluster_of (ensureAgent r ip tok c)) = portless c"
proof (cases "Mode (Spec c) = VirtualNodeMode")
  case True
  then show ?thesis by (simp add: ensureAgent_def Let_def)
next
  case False
  have "portless (cluster_of (andThen (allocatePorts r c) f)) = portless c"
    if "\<And>x c1. cluster_of (f x c1) = c1" for f :: "int \<times> int \<Rightarrow> Cluster \<Rightarrow> unit outcome"
    using that by (intro view_andThen portless_allocatePorts) simp
  with False show ?thesis
    by (simp add: ensureAgent_def Let_def split_def)
qed

lemma portless_ensureOwned: "portless (cluster_of (ensureOwned r tok c)) = portless c"
  unfolding ensureOwned_def
  by (rule view_andThen portless_ensureAgent | simp)+

lemma portless_fields:
  assumes "portless c' = portless c"
  shows "Name c' = Name c" "Namespace c' = Namespace c" "Spec c' = Spec c"
    "DeletionTimestamp c' = DeletionTimestamp c" "Finalizers c' = Finalizers c"
    "HostVersion (Status c') = HostVersion (Status c)"
    "StatusClusterCIDR (Status c') = StatusClusterCIDR (Status c)"
    "StatusServiceCIDR (Status c') = StatusServiceCIDR (Status c)"
    "PolicyName (Status c') = PolicyName (Status c)"
    "Phase (Status c') = Phase (Status c)"
    "Conditions (Status c') = Conditions (Status c)"
proof -
  have f: "f (portless c') = f (portless c)" for f :: "Cluster \<Rightarrow> 'b"
    using assms by simp
  show "Name c' = Name c" using f [of Name] by (simp add: portless_def)
  show "Namespace c' = Namespace c" using f [of Namespace] by (simp add: portless_def)
  show "Spec c' = Spec c" using f [of Spec] by (simp add: portless_def)
  show "DeletionTimestamp c' = DeletionTimestamp c"
    using f [of DeletionTimestamp] by (simp add: portless_def)
  show "Finalizers c' = Finalizers c" using f [of Finalizers] by (simp add: portless_def)
  show "HostVersion (Status c') = HostVersion (Status c)"
    using f [of "\<lambda>c. HostVersion (Status c)"] by (simp add: portless_def)
  show "StatusClusterCIDR (Status c') = StatusClusterCIDR (Status c)"
    using f [of "\<lambda>c. StatusClusterCIDR (Status c)"] by (simp add: portless_def)
  show "StatusServiceCIDR (Status c') = StatusServiceCIDR (Status c)"
    using f [of "\<lambda>c. StatusServiceCIDR (Status c)"] by (simp add: portless_def)
  show "PolicyName (Status c') = PolicyName (Status c)"
    using f [of "\<lambda>c. PolicyName (Status c)"] by (simp add: portless_def)
  show "Phase (Status c') = Phase (Status c)"
    using f [of "\<lambda>c. Phase (Status c)"] by (simp add: portless_def)
  show "Conditions (Status c') = Conditions (Status c)"
    using f [of "\<lambda>c. Conditions (Status c)"] by (simp add: portless_def)
qed

subsection \<open>The events of a convergence\<close>

lemma events_lookupServiceCIDR: "list_all convergenceEvent (fst (lookupServiceCIDR r))"
  by (auto simp: lookupServiceCIDR_def lookupFromPods_def Let_def
           split: option.splits sum.splits list.splits prod.splits if_splits)

lemma events_assignCIDRs: "list_all convergenceEvent (events (assignCIDRs r c))"
proof -
  have "list_all convergenceEvent (events (assignServiceCIDR r c1))" for c1
    using events_lookupServiceCIDR [of r]
    by (auto simp: assignServiceCIDR_def Let_def split: sum.splits prod.splits)
  then show ?thesis by (simp add: assignCIDRs_def)
qed

lemma events_resolveHostVersion: "list_all convergenceEvent (events (resolveHostVersion r c))"
  unfolding resolveHostVersion_def
  by (auto simp: Let_def intro!: events_andThen)

lemma events_ensureNetworkPolicy: "list_all convergenceEvent (events (ensureNetworkPolicy r c))"
  by (simp add: ensureNetworkPolicy_def)

lemma events_ensureClusterService: "list_all convergenceEvent (events (ensureClusterService r c))"
  by (simp add: ensureClusterService_def)

lemma events_createClusterConfigs: "list_all convergenceEvent (events (createClusterConfigs r ip c))"
  unfolding createClusterConfigs_def
  by (rule events_andThen | simp)+

lemma events_server: "list_all convergenceEvent (events (server r c))"
  unfolding server_def
  by (rule events_andThen | simp)+

lemma events_allocatePorts: "list_all convergenceEvent (events (allocatePorts r c))"
  unfolding allocatePorts_def
  by (auto simp: Let_def intro!: events_andThen)

lemma events_ensureAgent: "list_all convergenceEvent (events (ensureAgent r ip tok c))"
  unfolding ensureAgent_def
  by (auto simp: Let_def split_def intro!: events_andThen events_allocatePorts)

lemma events_ensureIngress: "list_all convergenceEvent (events (ensureIngress r c))"
  by (simp add: ensureIngress_def)

lemma events_ensureBootstrapSecret: "list_all convergenceEvent (events (ensureBootstrapSecret r ip tok c))"
  unfolding ensureBootstrapSecret_def
  by (rule events_andThen | simp)+

lemma events_ensureKubeconfigSecret: "list_all convergenceEvent (events (ensureKubeconfigSecret r ip c))"
  unfolding ensureKubeconfigSecret_def
  by (rule events_andThen | simp)+

lemma events_bindClusterRoles_loop: "list_all convergenceEvent (fst (bindClusterRoles_loop r c roles err))"
  by (induction roles arbitrary: err) (simp_all add: Let_def split_def split: sum.splits option.splits)

lemma events_bindClusterRoles: "list_all convergenceEvent (events (bindClusterRoles r c))"
  by (simp add: bindClusterRoles_def split_def events_bindClusterRoles_loop
        del: bindClusterRoles_loop.simps)

lemma events_ensureOwned: "list_all convergenceEvent (events (ensureOwned r tok c))"
  unfolding ensureOwned_def
  by (intro events_andThen events_ensureNetworkPolicy events_ensureClusterService
        events_createClusterConfigs events_server events_ensureAgent events_ensureIngress
        events_ensureBootstrapSecret events_ensureKubeconfigSecret events_bindClusterRoles)

lemma events_converge: "list_all convergenceEvent (events (converge r c))"
  unfolding converge_def
  by (intro events_andThen events_resolveHostVersion events_assignCIDRs events_ensureOwned) simp

lemma events_checkPolicy:
  "list_all (\<lambda>ev. \<not> isStatusWrite ev) (events (checkPolicy r c))"
  by (auto simp: checkPolicy_def call_def andThen_def succeed_def compute_def Let_def
           split: sum.splits prod.splits)

lemma convergenceEvent_not_write: "convergenceEvent ev \<Longrightarrow> \<not> isStatusWrite ev"
  by (cases ev) simp_all

lemma events_reconcile: "list_all (\<lambda>ev. \<not> isStatusWrite ev) (events (reconcile r c))"
proof -
  have "list_all (\<lambda>ev. \<not> isStatusWrite ev) (events (converge r c1))" for c1
    using events_converge [of r c1] by (simp add: list_all_iff convergenceEvent_not_write)
  then show ?thesis
    unfolding reconcile_def by (intro events_andThen events_checkPolicy)
qed

subsection \<open>Splitting\<close>

lemma Index_single:
  "Index s [c] = (if c \<in> set s then Some (length (takeWhile (\<lambda>x. x \<noteq> c) s)) else None)"
  by (induction s) (auto simp: HasPrefix_def)

lemma Split_single_first: "Split s [c] ! 0 = takeWhile (\<lambda>x. x \<noteq> c) s"
proof (cases "c \<in> set s")
  case True
  then show ?thesis
    by (subst Split.simps) (simp add: Index_single takeWhile_eq_take [symmetric])
next
  case False
  then have tw: "takeWhile (\<lambda>x. x \<noteq> c) s = s"
    by (induction s) auto
  show ?thesis
    by (subst Split.simps) (simp add: Index_single False tw)
qed

lemma Split_nonempty: "sep \<noteq> [] \<Longrightarrow> Split s sep \<noteq> []"
  by (subst Split.simps) (simp split: option.splits)

lemma Split_hint_length: "sep \<noteq> [] \<Longrightarrow> (1 < length (Split s sep)) = (Index s sep \<noteq> None)"
proof (cases "Index s sep")
  case None
  assume "sep \<noteq> []"
  with None show ?thesis by (subst Split.simps) simp
next
  case (Some m)
  assume sep: "sep \<noteq> []"
  from Split_nonempty [OF sep] have "0 < length (Split (drop (m + length sep) s) sep)"
    by simp
  with Some sep show ?thesis by (subst Split.simps) simp
qed

subsection \<open>The ports of the shared agent\<close>

text \<open>
  Claim C1, as stated, fails. The sample Cluster is in shared mode with host-node
  mirroring and has no port recorded; the allocator gives the kubelet port 30001 and
  has no webhook port. The pass ends with the allocator's error, and the status it has
  persisted holds the kubelet port and no webhook port.
\<close>

theorem failed_webhook_allocation_persists_kubelet_port:
  "Mode (Spec sampleCluster) = SharedClusterMode \<and> MirrorHostNodes (Spec sampleCluster) \<and>
   ports sampleCluster = (0, 0) \<and>
   AllocateKubeletPort noWebhookPort (''tenant'', ''demo'') = Inr 30001 \<and>
   AllocateWebhookPort noWebhookPort (''tenant'', ''demo'') = Inl (OtherError ''no free port'') \<and>
   snd (Reconcile noWebhookPort (''tenant'', ''demo'')) = (Result_empty, Some (OtherError ''no free port'')) \<and>
   map_option (\<lambda>s. (KubeletPort s, WebhookPort s))
     (persistedStatus noWebhookPort (fst (Reconcile noWebhookPort (''tenant'', ''demo''))))
     = Some (30001, 0)"
  by code_simp

lemma allocatePorts_kubelet_fails:
  assumes "MirrorHostNodes (Spec c)" and "AllocateKubeletPort r (Namespace c, Name c) = Inl e"
  shows "allocatePorts r c = ([AllocateKubeletPort_ev], c, Inl e)"
  using assms by (simp add: allocatePorts_def call_def)

lemma allocatePorts_webhook_fails:
  assumes "MirrorHostNodes (Spec c)" and "AllocateKubeletPort r (Namespace c, Name c) = Inr k"
      and "AllocateWebhookPort r (Namespace c, Name c) = Inl e"
  shows "allocatePorts r c =
           ([AllocateKubeletPort_ev, AllocateWebhookPort_ev],
            c\<lparr>Status := (Status c)\<lparr>KubeletPort := k\<rparr>\<rparr>, Inl e)"
  using assms by (simp add: allocatePorts_def call_def Let_def)

lemma ports_allocatePorts:
  "ports (cluster_of (allocatePorts r c)) =
     (if MirrorHostNodes (Spec c)
      then (case AllocateKubeletPort r (Namespace c, Name c) of
              Inl e \<Rightarrow> ports c
            | Inr k \<Rightarrow> (case AllocateWebhookPort r (Namespace c, Name c) of
                          Inl e \<Rightarrow> (k, WebhookPort (Status c))
                        | Inr w \<Rightarrow> (k, w)))
      else ports c)"
  by (simp add: allocatePorts_def call_def succeed_def Let_def ports_def split: sum.splits)

lemma ports_allocatePorts_view:
  assumes "portView c1 = portView c"
  shows "ports (cluster_of (allocatePorts r c1)) = ports (cluster_of (allocatePorts r c))"
  unfolding ports_allocatePorts using assms
  by (simp add: portView_def ports_def split: sum.splits)

lemma cluster_of_ensureAgent:
  "cluster_of (ensureAgent r ip tok c) = c \<or>
   cluster_of (ensureAgent r ip tok c) = cluster_of (allocatePorts r c)"
proof (cases "Mode (Spec c) = VirtualNodeMode")
  case True
  then show ?thesis by (simp add: ensureAgent_def Let_def)
next
  case False
  then have "cluster_of (ensureAgent r ip tok c) = cluster_of (allocatePorts r c)"
    unfolding ensureAgent_def
    by (simp add: cluster_of_andThen_pure split_def Let_def)
  then show ?thesis ..
qed

lemma cluster_of_after_agent:
  "cluster_of
     (andThen (ensureIngress r c) (\<lambda>_ cluster.
      andThen (ensureBootstrapSecret r ip tok cluster) (\<lambda>_ cluster.
      andThen (ensureKubeconfigSecret r ip cluster) (\<lambda>_ cluster.
      bindClusterRoles r cluster)))) = c"
  by (rule view_andThen [where g = "\<lambda>c. c"] | simp)+

lemma cluster_of_from_agent:
  "cluster_of
     (andThen (ensureAgent r ip tok c) (\<lambda>_ cluster.
      andThen (ensureIngress r cluster) (\<lambda>_ cluster.
      andThen (ensureBootstrapSecret r ip tok cluster) (\<lambda>_ cluster.
      andThen (ensureKubeconfigSecret r ip cluster) (\<lambda>_ cluster.
      bindClusterRoles r cluster))))) = cluster_of (ensureAgent r ip tok c)"
  by (rule cluster_of_andThen_pure) (rule cluster_of_after_agent)

lemma cluster_of_ensureOwned:
  "cluster_of (ensureOwned r tok c) = c \<or>
   cluster_of (ensureOwned r tok c) = cluster_of (allocatePorts r c)"
  unfolding ensureOwned_def
  by (rule andThen_rule [where Q = "\<lambda>c1. c1 = c"
            and P = "\<lambda>c'. c' = c \<or> c' = cluster_of (allocatePorts r c)"];
      simp add: cluster_of_from_agent cluster_of_ensureAgent)+

lemma portView_checkPolicy: "portView (cluster_of (checkPolicy r c)) = portView c"
  by (simp add: portView_def cluster_of_checkPolicy split: sum.splits)

lemma portView_resolveHostVersion: "portView (cluster_of (resolveHostVersion r c)) = portView c"
  by (simp add: portView_def cluster_of_resolveHostVersion split: sum.splits)

lemma portView_assignCIDRs: "portView (cluster_of (assignCIDRs r c)) = portView c"
  by (simp add: portView_def cluster_of_assignCIDRs)

lemma ports_reconcile:
  "ports (cluster_of (reconcile r c)) = ports c \<or>
   ports (cluster_of (reconcile r c)) = ports (cluster_of (allocatePorts r c))"
proof -
  let ?P = "\<lambda>c'. ports c' = ports c \<or> ports c' = ports (cluster_of (allocatePorts r c))"
  let ?Q = "\<lambda>c1. portView c1 = portView c"
  have QP: "?P c1" if "?Q c1" for c1 :: Cluster
    using that by (simp add: portView_def ports_def)
  have owned: "?P (cluster_of (ensureOwned r tok c1))" if "?Q c1" for tok and c1 :: Cluster
    using cluster_of_ensureOwned [of r tok c1] QP [OF that] ports_allocatePorts_view [OF that, of r]
    by auto
  have conv: "?P (cluster_of (converge r c1))" if q: "?Q c1" for c1 :: Cluster
    unfolding converge_def
  proof (rule andThen_rule [where Q = ?Q])
    show "?Q (cluster_of (resolveHostVersion r c1))"
      by (simp add: portView_resolveHostVersion q)
  next
    fix x :: unit and c2 :: Cluster
    assume q2: "?Q c2"
    show "?P (cluster_of (andThen (call token_ev (c_token r c2) c2) (\<lambda>token cluster.
               andThen (assignCIDRs r cluster) (\<lambda>_ cluster. ensureOwned r token cluster))))"
    proof (rule andThen_rule [where Q = ?Q])
      show "?Q (cluster_of (call token_ev (c_token r c2) c2))" by (simp add: q2)
    next
      fix token :: string and c3 :: Cluster
      assume q3: "?Q c3"
      show "?P (cluster_of (andThen (assignCIDRs r c3) (\<lambda>_ cluster. ensureOwned r token cluster)))"
        by (rule andThen_rule [where Q = ?Q]) (simp_all add: portView_assignCIDRs q3 QP owned)
    qed (rule QP)
  qed (rule QP)
  show ?thesis
    unfolding reconcile_def
    by (rule andThen_rule [where Q = ?Q]) (simp_all add: portView_checkPolicy QP conv)
qed

text \<open>
  Claim C1, amended. For a Cluster in shared mode with host-node mirroring: when the
  allocation of the kubelet port fails, \<^verbatim>\<open>ensureAgent\<close> stops there and the status is as
  it was, and convergence leaves both ports as they were; when the kubelet port is
  allocated and the allocation of the webhook port fails, \<^verbatim>\<open>ensureAgent\<close> has recorded
  the kubelet port and left the webhook port, and convergence leaves either both ports
  as they were or the new kubelet port beside the old webhook port.
\<close>

theorem ports_recorded_in_turn:
  assumes "Mode (Spec c) \<noteq> VirtualNodeMode" and "MirrorHostNodes (Spec c)"
  shows "(AllocateKubeletPort r (Namespace c, Name c) = Inl e \<longrightarrow>
            ensureAgent r ip tok c = ([AllocateKubeletPort_ev], c, Inl e) \<and>
            ports (cluster_of (reconcile r c)) = ports c) \<and>
         (AllocateKubeletPort r (Namespace c, Name c) = Inr k \<and>
          AllocateWebhookPort r (Namespace c, Name c) = Inl e \<longrightarrow>
            ensureAgent r ip tok c =
              ([AllocateKubeletPort_ev, AllocateWebhookPort_ev],
               c\<lparr>Status := (Status c)\<lparr>KubeletPort := k\<rparr>\<rparr>, Inl e) \<and>
            (ports (cluster_of (reconcile r c)) = ports c \<or>
             ports (cluster_of (reconcile r c)) = (k, WebhookPort (Status c))))"
proof (intro conjI impI)
  assume a: "AllocateKubeletPort r (Namespace c, Name c) = Inl e"
  from assms show "ensureAgent r ip tok c = ([AllocateKubeletPort_ev], c, Inl e)"
    by (simp add: ensureAgent_def allocatePorts_kubelet_fails [OF assms(2) a])
  from a assms(2) have "ports (cluster_of (allocatePorts r c)) = ports c"
    by (simp add: ports_allocatePorts)
  with ports_reconcile [of r c] show "ports (cluster_of (reconcile r c)) = ports c"
    by auto
next
  assume a: "AllocateKubeletPort r (Namespace c, Name c) = Inr k \<and>
          AllocateWebhookPort r (Namespace c, Name c) = Inl e"
  then have k: "AllocateKubeletPort r (Namespace c, Name c) = Inr k"
    and w: "AllocateWebhookPort r (Namespace c, Name c) = Inl e" by simp_all
  from assms show "ensureAgent r ip tok c =
              ([AllocateKubeletPort_ev, AllocateWebhookPort_ev],
               c\<lparr>Status := (Status c)\<lparr>KubeletPort := k\<rparr>\<rparr>, Inl e)"
    by (simp add: ensureAgent_def allocatePorts_webhook_fails [OF assms(2) k w])
  from k w assms(2) have "ports (cluster_of (allocatePorts r c)) = (k, WebhookPort (Status c))"
    by (simp add: ports_allocatePorts)
  with ports_reconcile [of r c]
  show "ports (cluster_of (reconcile r c)) = ports c \<or>
        ports (cluster_of (reconcile r c)) = (k, WebhookPort (Status c))"
    by auto
qed

theorem ports_recorded_in_turn_witness:
  "ensureAgent noWebhookPort ''10.43.0.10'' ''secret'' sampleCluster =
     ([AllocateKubeletPort_ev, AllocateWebhookPort_ev],
      sampleCluster\<lparr>Status := (Status sampleCluster)\<lparr>KubeletPort := 30001\<rparr>\<rparr>,
      Inl (OtherError ''no free port'')) \<and>
   (ports (cluster_of (reconcile noWebhookPort sampleCluster)) = (0, 0) \<or>
    ports (cluster_of (reconcile noWebhookPort sampleCluster)) = (30001, 0))"
proof -
  have h1: "Mode (Spec sampleCluster) \<noteq> VirtualNodeMode" by code_simp
  have h2: "MirrorHostNodes (Spec sampleCluster)" by code_simp
  have a: "AllocateKubeletPort noWebhookPort (Namespace sampleCluster, Name sampleCluster) = Inr 30001 \<and>
           AllocateWebhookPort noWebhookPort (Namespace sampleCluster, Name sampleCluster)
             = Inl (OtherError ''no free port'')"
    by (simp add: noWebhookPort_def sampleReconciler_def)
  have p: "ports sampleCluster = (0, 0)" "WebhookPort (Status sampleCluster) = 0"
    by code_simp+
  from ports_recorded_in_turn [OF h1 h2, of noWebhookPort "OtherError ''no free port''"
         "''10.43.0.10''" "''secret''" 30001] a p
  show ?thesis by simp
qed

subsection \<open>The recorded address ranges\<close>

text \<open>
  Claim C2, as stated, fails: the address ranges of the status are assigned anew in
  every pass that gets to lines 270-299. A Cluster with both ranges recorded whose spec
  now names another cluster CIDR has the recorded cluster CIDR replaced by the spec's;
  and with an unchanged, empty spec service CIDR a shared-mode Cluster has its recorded
  service CIDR replaced by whatever the lookup returns this time.
\<close>

theorem recorded_cidrs_are_overwritten:
  "StatusClusterCIDR (Status respecCluster) = ''10.42.0.0/16'' \<and>
   StatusServiceCIDR (Status respecCluster) = ''10.43.0.0/16'' \<and>
   ClusterCIDR (Spec respecCluster) = ''10.99.0.0/16'' \<and>
   StatusClusterCIDR (Status (cluster_of (reconcile sampleReconciler respecCluster))) = ''10.99.0.0/16'' \<and>
   ServiceCIDR (Spec resolvedCluster) = [] \<and>
   StatusServiceCIDR (Status resolvedCluster) = ''10.43.0.0/16'' \<and>
   StatusServiceCIDR (Status (cluster_of (reconcile flagHost resolvedCluster))) = ''10.96.0.0/12''"
  by code_simp

lemma cidrView_ensureOwned: "cidrView (cluster_of (ensureOwned r tok c)) = cidrView c"
  using portless_fields [OF portless_ensureOwned [of r tok c]] by (simp add: cidrView_def)

lemma cidrView_checkPolicy: "cidrView (cluster_of (checkPolicy r c)) = cidrView c"
  by (simp add: cidrView_def cluster_of_checkPolicy split: sum.splits)

lemma cidrView_resolveHostVersion: "cidrView (cluster_of (resolveHostVersion r c)) = cidrView c"
  by (simp add: cidrView_def cluster_of_resolveHostVersion split: sum.splits)

lemma cidrView_assignCIDRs:
  assumes "Spec c1 = Spec c"
  shows "cidrView (cluster_of (assignCIDRs r c1)) =
           (Spec c,
            (if ClusterCIDR (Spec c) = []
             then (if Mode (Spec c) = SharedClusterMode
                   then defaultSharedClusterCIDR else defaultVirtualClusterCIDR)
             else ClusterCIDR (Spec c)),
            (if ServiceCIDR (Spec c) \<noteq> [] then ServiceCIDR (Spec c)
             else if Mode (Spec c) = SharedClusterMode
             then (case snd (lookupServiceCIDR r) of
                     Inl err \<Rightarrow> defaultSharedServiceCIDR
                   | Inr serviceCIDR \<Rightarrow> serviceCIDR)
             else if Mode (Spec c) = VirtualClusterMode then defaultVirtualServiceCIDR
             else []))"
  using assms
  by (simp add: cidrView_def cluster_of_assignCIDRs SharedClusterMode_def VirtualClusterMode_def)

lemma cidrView_reconcile:
  "cidrView (cluster_of (reconcile r c)) = cidrView c \<or>
   cidrView (cluster_of (reconcile r c)) = cidrView (cluster_of (assignCIDRs r c))"
proof -
  let ?P = "\<lambda>c'. cidrView c' = cidrView c \<or> cidrView c' = cidrView (cluster_of (assignCIDRs r c))"
  let ?Q = "\<lambda>c1. cidrView c1 = cidrView c"
  let ?Q' = "\<lambda>c1. cidrView c1 = cidrView (cluster_of (assignCIDRs r c))"
  have QP: "?P c1" if "?Q c1" for c1 :: Cluster
    using that by simp
  have assign: "?Q' (cluster_of (assignCIDRs r c1))" if "?Q c1" for c1 :: Cluster
  proof -
    from that have "Spec c1 = Spec c" by (simp add: cidrView_def)
    then show ?thesis by (simp add: cidrView_assignCIDRs)
  qed
  have conv: "?P (cluster_of (converge r c1))" if q: "?Q c1" for c1 :: Cluster
    unfolding converge_def
  proof (rule andThen_rule [where Q = ?Q])
    show "?Q (cluster_of (resolveHostVersion r c1))"
      by (simp add: cidrView_resolveHostVersion q)
  next
    fix x :: unit and c2 :: Cluster
    assume q2: "?Q c2"
    show "?P (cluster_of (andThen (call token_ev (c_token r c2) c2) (\<lambda>token cluster.
               andThen (assignCIDRs r cluster) (\<lambda>_ cluster. ensureOwned r token cluster))))"
    proof (rule andThen_rule [where Q = ?Q])
      show "?Q (cluster_of (call token_ev (c_token r c2) c2))" by (simp add: q2)
    next
      fix token :: string and c3 :: Cluster
      assume q3: "?Q c3"
      show "?P (cluster_of (andThen (assignCIDRs r c3) (\<lambda>_ cluster. ensureOwned r token cluster)))"
        by (rule andThen_rule [where Q = ?Q']) (simp_all add: assign [OF q3] cidrView_ensureOwned)
    qed (rule QP)
  qed (rule QP)
  show ?thesis
    unfolding reconcile_def
    by (rule andThen_rule [where Q = ?Q]) (simp_all add: cidrView_checkPolicy QP conv)
qed

lemma andThen_succeeded:
  assumes "result (andThen m f) = Inr y"
  shows "\<exists>x. result m = Inr x \<and> result (f x (cluster_of m)) = Inr y \<and>
             cluster_of (andThen m f) = cluster_of (f x (cluster_of m))"
proof -
  obtain t c res where m: "m = (t, c, res)" by (cases m)
  show ?thesis
  proof (cases res)
    case (Inl e)
    with m assms show ?thesis by simp
  next
    case (Inr x)
    obtain t' c' r' where f: "f x c = (t', c', r')" by (cases "f x c")
    with m Inr assms show ?thesis by simp
  qed
qed

lemma cidrView_reconcile_succeeded:
  assumes "result (reconcile r c) = Inr ()"
  shows "cidrView (cluster_of (reconcile r c)) = cidrView (cluster_of (assignCIDRs r c))"
proof -
  let ?c1 = "cluster_of (checkPolicy r c)"
  from andThen_succeeded [OF assms [unfolded reconcile_def]]
  have conv: "result (converge r ?c1) = Inr ()"
    and fin1: "cluster_of (reconcile r c) = cluster_of (converge r ?c1)"
    by (auto simp: reconcile_def)
  let ?c2 = "cluster_of (resolveHostVersion r ?c1)"
  from andThen_succeeded [OF conv [unfolded converge_def]]
  have rest: "result (andThen (call token_ev (c_token r ?c2) ?c2) (\<lambda>token cluster.
                 andThen (assignCIDRs r cluster) (\<lambda>_ cluster. ensureOwned r token cluster))) = Inr ()"
    and fin2: "cluster_of (converge r ?c1) =
               cluster_of (andThen (call token_ev (c_token r ?c2) ?c2) (\<lambda>token cluster.
                 andThen (assignCIDRs r cluster) (\<lambda>_ cluster. ensureOwned r token cluster)))"
    by (auto simp: converge_def)
  from andThen_succeeded [OF rest] obtain tok
    where own: "result (andThen (assignCIDRs r ?c2) (\<lambda>_ cluster. ensureOwned r tok cluster)) = Inr ()"
      and fin3: "cluster_of (andThen (call token_ev (c_token r ?c2) ?c2) (\<lambda>token cluster.
                   andThen (assignCIDRs r cluster) (\<lambda>_ cluster. ensureOwned r token cluster))) =
                 cluster_of (andThen (assignCIDRs r ?c2) (\<lambda>_ cluster. ensureOwned r tok cluster))"
    by auto
  let ?c4 = "cluster_of (assignCIDRs r ?c2)"
  from andThen_succeeded [OF own]
  have fin4: "cluster_of (andThen (assignCIDRs r ?c2) (\<lambda>_ cluster. ensureOwned r tok cluster)) =
              cluster_of (ensureOwned r tok ?c4)"
    by auto
  have "cidrView ?c2 = cidrView c"
    by (simp add: cidrView_resolveHostVersion cidrView_checkPolicy)
  then have "Spec ?c2 = Spec c" by (simp add: cidrView_def)
  then have "cidrView ?c4 = cidrView (cluster_of (assignCIDRs r c))"
    by (simp add: cidrView_assignCIDRs)
  then show ?thesis
    by (simp add: fin1 fin2 fin3 fin4 cidrView_ensureOwned)
qed

text \<open>
  Claim C2, amended. After a convergence each recorded address range is either the one
  recorded before or the one that lines 270-299 determine in this pass: for the cluster
  CIDR the spec's value, or with an unset one the default of the mode; for the service
  CIDR the spec's value, or with an unset one in shared mode what the lookup returns
  (the shared default when the lookup fails) and in virtual mode the virtual default.
  So convergence leaves \<^verbatim>\<open>Status.ClusterCIDR\<close> unchanged whenever the recorded value is
  the determined one, and likewise \<^verbatim>\<open>Status.ServiceCIDR\<close>, each on its own; and after
  a convergence without error both are the determined ones, whatever was recorded.
\<close>

theorem recorded_cidrs_follow_spec:
  "let c' = cluster_of (reconcile r c);
       clusterCIDR = (if ClusterCIDR (Spec c) = []
                      then (if Mode (Spec c) = SharedClusterMode
                            then defaultSharedClusterCIDR else defaultVirtualClusterCIDR)
                      else ClusterCIDR (Spec c));
       serviceCIDR = (if ServiceCIDR (Spec c) \<noteq> [] then ServiceCIDR (Spec c)
                      else if Mode (Spec c) = SharedClusterMode
                      then (case snd (lookupServiceCIDR r) of
                              Inl err \<Rightarrow> defaultSharedServiceCIDR
                            | Inr n \<Rightarrow> n)
                      else if Mode (Spec c) = VirtualClusterMode then defaultVirtualServiceCIDR
                      else [])
   in (StatusClusterCIDR (Status c') = StatusClusterCIDR (Status c) \<or>
       StatusClusterCIDR (Status c') = clusterCIDR) \<and>
      (StatusServiceCIDR (Status c') = StatusServiceCIDR (Status c) \<or>
       StatusServiceCIDR (Status c') = serviceCIDR) \<and>
      (StatusClusterCIDR (Status c) = clusterCIDR \<longrightarrow>
         StatusClusterCIDR (Status c') = StatusClusterCIDR (Status c)) \<and>
      (StatusServiceCIDR (Status c) = serviceCIDR \<longrightarrow>
         StatusServiceCIDR (Status c') = StatusServiceCIDR (Status c)) \<and>
      (result (reconcile r c) = Inr () \<longrightarrow>
         StatusClusterCIDR (Status c') = clusterCIDR \<and>
         StatusServiceCIDR (Status c') = serviceCIDR)"
proof -
  let ?c' = "cluster_of (reconcile r c)"
  let ?clusterCIDR = "if ClusterCIDR (Spec c) = []
                      then (if Mode (Spec c) = SharedClusterMode
                            then defaultSharedClusterCIDR else defaultVirtualClusterCIDR)
                      else ClusterCIDR (Spec c)"
  let ?serviceCIDR = "if ServiceCIDR (Spec c) \<noteq> [] then ServiceCIDR (Spec c)
                      else if Mode (Spec c) = SharedClusterMode
                      then (case snd (lookupServiceCIDR r) of
                              Inl err \<Rightarrow> defaultSharedServiceCIDR
                            | Inr n \<Rightarrow> n)
                      else if Mode (Spec c) = VirtualClusterMode then defaultVirtualServiceCIDR
                      else []"
  have a: "cidrView (cluster_of (assignCIDRs r c)) = (Spec c, ?clusterCIDR, ?serviceCIDR)"
    by (rule cidrView_assignCIDRs) simp
  have determined: "StatusClusterCIDR (Status ?c') = ?clusterCIDR \<and>
                    StatusServiceCIDR (Status ?c') = ?serviceCIDR"
    if "cidrView ?c' = cidrView (cluster_of (assignCIDRs r c))"
    using that unfolding a by (simp add: cidrView_def)
  have kept: "(StatusClusterCIDR (Status ?c') = StatusClusterCIDR (Status c) \<or>
               StatusClusterCIDR (Status ?c') = ?clusterCIDR) \<and>
              (StatusServiceCIDR (Status ?c') = StatusServiceCIDR (Status c) \<or>
               StatusServiceCIDR (Status ?c') = ?serviceCIDR) \<and>
              (StatusClusterCIDR (Status c) = ?clusterCIDR \<longrightarrow>
                 StatusClusterCIDR (Status ?c') = StatusClusterCIDR (Status c)) \<and>
              (StatusServiceCIDR (Status c) = ?serviceCIDR \<longrightarrow>
                 StatusServiceCIDR (Status ?c') = StatusServiceCIDR (Status c))"
    using cidrView_reconcile [of r c]
  proof
    assume "cidrView ?c' = cidrView c"
    then have "StatusClusterCIDR (Status ?c') = StatusClusterCIDR (Status c)"
      "StatusServiceCIDR (Status ?c') = StatusServiceCIDR (Status c)"
      by (simp_all add: cidrView_def)
    then show ?thesis by (intro conjI disjI1 impI)
  next
    assume "cidrView ?c' = cidrView (cluster_of (assignCIDRs r c))"
    from determined [OF this]
    have e: "StatusClusterCIDR (Status ?c') = ?clusterCIDR"
      "StatusServiceCIDR (Status ?c') = ?serviceCIDR"
      by blast+
    show ?thesis
      unfolding e by (intro conjI disjI2 impI) (rule refl, rule refl, erule sym, erule sym)
  qed
  have finished: "StatusClusterCIDR (Status ?c') = ?clusterCIDR \<and>
              StatusServiceCIDR (Status ?c') = ?serviceCIDR"
    if "result (reconcile r c) = Inr ()"
    by (rule determined) (rule cidrView_reconcile_succeeded [OF that])
  from kept finished show ?thesis
    unfolding Let_def by blast
qed

theorem recorded_cidrs_follow_spec_witness:
  "StatusClusterCIDR (Status (cluster_of (reconcile sampleReconciler resolvedCluster))) = ''10.42.0.0/16'' \<and>
   StatusServiceCIDR (Status (cluster_of (reconcile sampleReconciler resolvedCluster))) = ''10.43.0.0/16'' \<and>
   StatusClusterCIDR (Status (cluster_of (reconcile flagHost resolvedCluster))) = ''10.42.0.0/16'' \<and>
   StatusServiceCIDR (Status (cluster_of (reconcile flagHost resolvedCluster))) = ''10.96.0.0/12'' \<and>
   StatusClusterCIDR (Status (cluster_of (reconcile flagHost pinnedCluster))) = ''10.99.0.0/16'' \<and>
   StatusServiceCIDR (Status (cluster_of (reconcile flagHost pinnedCluster))) = ''10.98.0.0/16''"
proof -
  have v: "StatusClusterCIDR (Status resolvedCluster) = ''10.42.0.0/16''"
    "StatusServiceCIDR (Status resolvedCluster) = ''10.43.0.0/16''"
    "ClusterCIDR (Spec resolvedCluster) = []" "ServiceCIDR (Spec resolvedCluster) = []"
    "Mode (Spec resolvedCluster) = SharedClusterMode"
    "StatusClusterCIDR (Status pinnedCluster) = ''10.99.0.0/16''"
    "StatusServiceCIDR (Status pinnedCluster) = ''10.98.0.0/16''"
    "ClusterCIDR (Spec pinnedCluster) = ''10.99.0.0/16''"
    "ServiceCIDR (Spec pinnedCluster) = ''10.98.0.0/16''"
    by code_simp+
  have l: "snd (lookupServiceCIDR sampleReconciler) = Inr ''10.43.0.0/16''"
    by code_simp
  have d: "defaultSharedClusterCIDR = ''10.42.0.0/16''"
    by (simp add: defaultSharedClusterCIDR_def)
  have l': "snd (lookupServiceCIDR flagHost) = Inr ''10.96.0.0/12''"
    by code_simp
  have ok: "result (reconcile sampleReconciler resolvedCluster) = Inr ()"
    "result (reconcile flagHost resolvedCluster) = Inr ()"
    by code_simp+
  from recorded_cidrs_follow_spec [of sampleReconciler resolvedCluster]
       recorded_cidrs_follow_spec [of flagHost resolvedCluster]
       recorded_cidrs_follow_spec [of flagHost pinnedCluster]
  show ?thesis by (simp add: Let_def v l l' d ok)
qed

subsection \<open>The lookup of the service CIDR\<close>

lemma scanArgs_find:
  "scanArgs r args =
     (case find (\<lambda>a. HasPrefix a rangeFlag) args of
        None \<Rightarrow> None
      | Some arg \<Rightarrow> (case ParseCIDR r (TrimPrefix arg rangeFlag) of
                      Inl err \<Rightarrow> None
                    | Inr n \<Rightarrow> Some n))"
  by (induction args) (simp_all add: rangeFlag_def)

lemma lookupServiceCIDR_hint:
  assumes "Create_failingSvc r = Some txt" and "Index txt rangeHint \<noteq> None"
  shows "lookupServiceCIDR r =
           ([Create_failingSvc_ev], ParseCIDR r (TrimSpace (Split txt rangeHint ! 1)))"
proof -
  have "rangeHint \<noteq> []" by (simp add: rangeHint_def)
  from Split_hint_length [OF this, of "txt"] assms(2)
  have "1 < length (Split txt rangeHint)" by simp
  with assms(1) show ?thesis
    by (simp add: lookupServiceCIDR_def Let_def rangeHint_def)
qed

lemma lookupServiceCIDR_no_hint:
  assumes "Create_failingSvc r = None \<or>
           (\<exists>txt. Create_failingSvc r = Some txt \<and> Index txt rangeHint = None)"
  shows "lookupServiceCIDR r =
           (Create_failingSvc_ev # fst (lookupFromPods r), snd (lookupFromPods r))"
proof -
  have ne: "rangeHint \<noteq> []" by (simp add: rangeHint_def)
  from assms show ?thesis
  proof
    assume "Create_failingSvc r = None"
    then show ?thesis by (simp add: lookupServiceCIDR_def split_def)
  next
    assume "\<exists>txt. Create_failingSvc r = Some txt \<and> Index txt rangeHint = None"
    then obtain msg where t: "Create_failingSvc r = Some msg" "Index msg rangeHint = None"
      by blast
    from Split_hint_length [OF ne, of msg] t(2) have "\<not> 1 < length (Split msg rangeHint)"
      by simp
    with t(1) show ?thesis
      by (simp add: lookupServiceCIDR_def Let_def split_def rangeHint_def)
  qed
qed

lemma StatusServiceCIDR_assignCIDRs:
  assumes "Mode (Spec c) = SharedClusterMode" and "ServiceCIDR (Spec c) = []"
  shows "StatusServiceCIDR (Status (cluster_of (assignCIDRs r c))) =
           (case snd (lookupServiceCIDR r) of
              Inl err \<Rightarrow> defaultSharedServiceCIDR
            | Inr serviceCIDR \<Rightarrow> serviceCIDR)"
  using assms
  by (simp add: cluster_of_assignCIDRs SharedClusterMode_def VirtualClusterMode_def)

text \<open>
  When neither strategy finds a range and the listing of the Pods does not fail,
  \<^verbatim>\<open>lookupServiceCIDR\<close> returns the empty string without an error, and the caller
  records it.
\<close>

lemma nothing_found_records_empty:
  assumes "Mode (Spec c) = SharedClusterMode" and "ServiceCIDR (Spec c) = []"
      and "Create_failingSvc r = None \<or>
           (\<exists>txt. Create_failingSvc r = Some txt \<and> Index txt rangeHint = None)"
      and "snd (lookupFromPods r) = Inr []"
  shows "StatusServiceCIDR (Status (cluster_of (assignCIDRs r c))) = []"
  by (simp add: StatusServiceCIDR_assignCIDRs [OF assms(1,2)] lookupServiceCIDR_no_hint [OF assms(3)]
        assms(4))

text \<open>
  Claim C3, on the code. A shared-mode Cluster with an unset service CIDR, on a host
  whose refusal of the failing service carries no range hint and which lists no
  kube-apiserver Pod: both strategies have run and found nothing, the pass succeeds,
  and the recorded service CIDR is the empty string, not the default \<^verbatim>\<open>10.43.0.0/16\<close>.
\<close>

theorem nothing_found_leaves_service_cidr_empty:
  "Mode (Spec sampleCluster) = SharedClusterMode \<and> ServiceCIDR (Spec sampleCluster) = [] \<and>
   lookupServiceCIDR noHint = ([Create_failingSvc_ev, List_apiServerPods_ev], Inr []) \<and>
   result (reconcile noHint sampleCluster) = Inr () \<and>
   StatusServiceCIDR (Status (cluster_of (reconcile noHint sampleCluster))) = [] \<and>
   StatusClusterCIDR (Status (cluster_of (reconcile noHint sampleCluster))) = ''10.42.0.0/16''"
  by code_simp

text \<open>
  Claim C10. When the error of the failing service creation contains the range hint and
  the hinted value does not parse, \<^verbatim>\<open>lookupServiceCIDR\<close> returns the parse error after
  the one call (the Pods are not listed), and the caller records the default
  \<^verbatim>\<open>10.43.0.0/16\<close> for a shared-mode Cluster with an unset service CIDR. When the hinted
  value parses, or when without a hint the first flagged argument of the kube-apiserver
  Pod parses, the recorded value is the text of the network that the parser returned.
\<close>

theorem hint_is_parsed_or_defaulted:
  assumes "Mode (Spec c) = SharedClusterMode" and "ServiceCIDR (Spec c) = []"
  shows "(Create_failingSvc r = Some txt \<and> Index txt rangeHint \<noteq> None \<and>
          ParseCIDR r (TrimSpace (Split txt rangeHint ! 1)) = Inl e \<longrightarrow>
            lookupServiceCIDR r = ([Create_failingSvc_ev], Inl e) \<and>
            StatusServiceCIDR (Status (cluster_of (assignCIDRs r c))) = ''10.43.0.0/16'' \<and>
            result (assignCIDRs r c) = Inr ()) \<and>
         (Create_failingSvc r = Some txt \<and> Index txt rangeHint \<noteq> None \<and>
          ParseCIDR r (TrimSpace (Split txt rangeHint ! 1)) = Inr n \<longrightarrow>
            lookupServiceCIDR r = ([Create_failingSvc_ev], Inr n) \<and>
            StatusServiceCIDR (Status (cluster_of (assignCIDRs r c))) = n) \<and>
         ((Create_failingSvc r = None \<or>
           (\<exists>txt. Create_failingSvc r = Some txt \<and> Index txt rangeHint = None)) \<and>
          List_apiServerPods r = Inr (pod # pods) \<and>
          find (\<lambda>a. HasPrefix a rangeFlag) (Args (Container0 pod)) = Some arg \<and>
          ParseCIDR r (TrimPrefix arg rangeFlag) = Inr n \<longrightarrow>
            lookupServiceCIDR r = ([Create_failingSvc_ev, List_apiServerPods_ev], Inr n) \<and>
            StatusServiceCIDR (Status (cluster_of (assignCIDRs r c))) = n)"
proof (intro conjI impI)
  assume a: "Create_failingSvc r = Some txt \<and> Index txt rangeHint \<noteq> None \<and>
          ParseCIDR r (TrimSpace (Split txt rangeHint ! 1)) = Inl e"
  then show l: "lookupServiceCIDR r = ([Create_failingSvc_ev], Inl e)"
    by (simp add: lookupServiceCIDR_hint)
  show "StatusServiceCIDR (Status (cluster_of (assignCIDRs r c))) = ''10.43.0.0/16''"
    by (simp add: StatusServiceCIDR_assignCIDRs [OF assms] l defaultSharedServiceCIDR_def)
  show "result (assignCIDRs r c) = Inr ()"
    by (rule result_assignCIDRs)
next
  assume a: "Create_failingSvc r = Some txt \<and> Index txt rangeHint \<noteq> None \<and>
          ParseCIDR r (TrimSpace (Split txt rangeHint ! 1)) = Inr n"
  then show l: "lookupServiceCIDR r = ([Create_failingSvc_ev], Inr n)"
    by (simp add: lookupServiceCIDR_hint)
  show "StatusServiceCIDR (Status (cluster_of (assignCIDRs r c))) = n"
    by (simp add: StatusServiceCIDR_assignCIDRs [OF assms] l)
next
  assume a: "(Create_failingSvc r = None \<or>
           (\<exists>txt. Create_failingSvc r = Some txt \<and> Index txt rangeHint = None)) \<and>
          List_apiServerPods r = Inr (pod # pods) \<and>
          find (\<lambda>a. HasPrefix a rangeFlag) (Args (Container0 pod)) = Some arg \<and>
          ParseCIDR r (TrimPrefix arg rangeFlag) = Inr n"
  then have "lookupFromPods r = ([List_apiServerPods_ev], Inr n)"
    by (simp add: lookupFromPods_def scanArgs_find)
  with a show l: "lookupServiceCIDR r = ([Create_failingSvc_ev, List_apiServerPods_ev], Inr n)"
    by (simp add: lookupServiceCIDR_no_hint)
  show "StatusServiceCIDR (Status (cluster_of (assignCIDRs r c))) = n"
    by (simp add: StatusServiceCIDR_assignCIDRs [OF assms] l)
qed

theorem hint_is_parsed_or_defaulted_witness:
  "lookupServiceCIDR badHint = ([Create_failingSvc_ev], Inl (OtherError ''invalid CIDR address'')) \<and>
   StatusServiceCIDR (Status (cluster_of (assignCIDRs badHint sampleCluster))) = ''10.43.0.0/16'' \<and>
   StatusServiceCIDR (Status (cluster_of (assignCIDRs sampleReconciler sampleCluster))) = ''10.43.0.0/16'' \<and>
   lookupServiceCIDR flagHost = ([Create_failingSvc_ev, List_apiServerPods_ev], Inr ''10.96.0.0/12'') \<and>
   StatusServiceCIDR (Status (cluster_of (assignCIDRs flagHost sampleCluster))) = ''10.96.0.0/12'' \<and>
   lookupServiceCIDR nbspHint = ([Create_failingSvc_ev], Inr ''10.96.0.0/12'') \<and>
   StatusServiceCIDR (Status (cluster_of (assignCIDRs nbspHint sampleCluster))) = ''10.96.0.0/12''"
proof -
  let ?spaced = "''Invalid value: The range of valid IPs is 10.96.0.1/12'' @ [CHR 0xC2, CHR 0xA0, CHR 0x0A]"
  have u: "Create_failingSvc nbspHint = Some ?spaced \<and> Index ?spaced rangeHint \<noteq> None \<and>
           ParseCIDR nbspHint (TrimSpace (Split ?spaced rangeHint ! 1)) = Inr ''10.96.0.0/12''"
    by code_simp
  have m: "Mode (Spec sampleCluster) = SharedClusterMode" and s: "ServiceCIDR (Spec sampleCluster) = []"
    by code_simp+
  have b: "Create_failingSvc badHint = Some ''Invalid value: The range of valid IPs is unknown'' \<and>
           Index ''Invalid value: The range of valid IPs is unknown'' rangeHint \<noteq> None \<and>
           ParseCIDR badHint (TrimSpace (Split ''Invalid value: The range of valid IPs is unknown'' rangeHint ! 1))
             = Inl (OtherError ''invalid CIDR address'')"
    by code_simp
  have g: "Create_failingSvc sampleReconciler = Some ''Invalid value: The range of valid IPs is 10.43.0.0/16'' \<and>
           Index ''Invalid value: The range of valid IPs is 10.43.0.0/16'' rangeHint \<noteq> None \<and>
           ParseCIDR sampleReconciler
             (TrimSpace (Split ''Invalid value: The range of valid IPs is 10.43.0.0/16'' rangeHint ! 1))
             = Inr ''10.43.0.0/16''"
    by code_simp
  let ?pod = "\<lparr>Container0 = \<lparr>Args = [''kube-apiserver'', ''--service-cluster-ip-range=10.96.0.1/12'']\<rparr>,
                 MoreContainers = []\<rparr>"
  have f: "(Create_failingSvc flagHost = None \<or>
           (\<exists>txt. Create_failingSvc flagHost = Some txt \<and> Index txt rangeHint = None)) \<and>
          List_apiServerPods flagHost = Inr (?pod # []) \<and>
          find (\<lambda>a. HasPrefix a rangeFlag) (Args (Container0 ?pod))
            = Some ''--service-cluster-ip-range=10.96.0.1/12'' \<and>
          ParseCIDR flagHost (TrimPrefix ''--service-cluster-ip-range=10.96.0.1/12'' rangeFlag)
            = Inr ''10.96.0.0/12''"
    by (simp add: flagHost_def sampleReconciler_def sampleParseCIDR_def rangeFlag_def
          HasPrefix_def TrimPrefix_def)
  from hint_is_parsed_or_defaulted [OF m s, of badHint
         "''Invalid value: The range of valid IPs is unknown''" "OtherError ''invalid CIDR address''"]
       hint_is_parsed_or_defaulted [OF m s, of sampleReconciler
         "''Invalid value: The range of valid IPs is 10.43.0.0/16''" _ "''10.43.0.0/16''"]
       hint_is_parsed_or_defaulted [OF m s, of flagHost _ _ "''10.96.0.0/12''" ?pod "[]"
         "''--service-cluster-ip-range=10.96.0.1/12''"]
       hint_is_parsed_or_defaulted [OF m s, of nbspHint ?spaced _ "''10.96.0.0/12''"]
       b g f u
  show ?thesis by simp
qed

subsection \<open>The passes of Reconcile\<close>

lemma Find_Set_StatusCondition:
  "\<exists>c. FindStatusCondition (SetStatusCondition now cs new) (CondType new) = Some c \<and>
        CondStatus c = CondStatus new \<and> Reason c = Reason new \<and> Message c = Message new"
  by (induction cs) (auto simp: mergeCondition_def Let_def)

text \<open>
  Claim C5. A Cluster without a deletion timestamp whose phase is unset or \<^verbatim>\<open>Unknown\<close>:
  the pass performs the read of the Cluster and one status write and nothing else (no
  step of the convergence); the written status has the phase \<^verbatim>\<open>Provisioning\<close> and a
  \<^verbatim>\<open>Ready\<close> condition with status false and reason \<^verbatim>\<open>Provisioning\<close>; when the write
  is accepted the pass returns without error and asks to be requeued at once.
\<close>

theorem initial_status_write:
  assumes "Get_Cluster r req = Inr cluster"
      and "IsZero (DeletionTimestamp cluster)"
      and "Phase (Status cluster) = [] \<or> Phase (Status cluster) = ClusterUnknown"
  shows "let cluster' = cluster\<lparr>Status := (Status cluster)
                          \<lparr>Phase := ClusterProvisioning,
                           Conditions := SetStatusCondition (Now r)
                                           (Conditions (Status cluster)) initialCondition\<rparr>\<rparr>
         in fst (Reconcile r req) = [Get_Cluster_ev req, Status_Update_ev cluster'] \<and>
            Phase (Status cluster') = ''Provisioning'' \<and>
            map_option (\<lambda>c. (CondStatus c, Reason c))
              (FindStatusCondition (Conditions (Status cluster')) ''Ready'')
              = Some (''False'', ''Provisioning'') \<and>
            (Status_Update r cluster' = None \<longrightarrow>
               snd (Reconcile r req) = (\<lparr>Requeue = True, RequeueAfter = 0\<rparr>, None))"
proof -
  define cluster' where "cluster' = cluster\<lparr>Status := (Status cluster)
                          \<lparr>Phase := ClusterProvisioning,
                           Conditions := SetStatusCondition (Now r)
                                           (Conditions (Status cluster)) initialCondition\<rparr>\<rparr>"
  have ev: "fst (Reconcile r req) = [Get_Cluster_ev req, Status_Update_ev cluster']"
    using assms by (auto simp: Reconcile_def Let_def cluster'_def split: option.splits)
  have ph: "Phase (Status cluster') = ''Provisioning''"
    by (simp add: cluster'_def ClusterProvisioning_def)
  obtain c where "FindStatusCondition (SetStatusCondition (Now r) (Conditions (Status cluster))
                    initialCondition) (CondType initialCondition) = Some c"
    and "CondStatus c = CondStatus initialCondition" and "Reason c = Reason initialCondition"
    using Find_Set_StatusCondition by blast
  then have cond: "map_option (\<lambda>c. (CondStatus c, Reason c))
              (FindStatusCondition (Conditions (Status cluster')) ''Ready'')
              = Some (''False'', ''Provisioning'')"
    by (simp add: cluster'_def initialCondition_def ConditionReady_def ConditionFalse_def
          ReasonProvisioning_def)
  have res: "snd (Reconcile r req) = (\<lparr>Requeue = True, RequeueAfter = 0\<rparr>, None)"
    if "Status_Update r cluster' = None"
    using assms that by (auto simp: Reconcile_def Let_def cluster'_def Result_empty_def)
  from ev ph cond res show ?thesis
    unfolding Let_def cluster'_def by blast
qed

theorem initial_status_write_witness:
  "Reconcile (sampleReconciler\<lparr>Get_Cluster := (\<lambda>req. Inr newCluster)\<rparr>) (''tenant'', ''demo'')
     = ([Get_Cluster_ev (''tenant'', ''demo''),
         Status_Update_ev (newCluster\<lparr>Status := (Status newCluster)
            \<lparr>Phase := ''Provisioning'',
             Conditions := [\<lparr>CondType = ''Ready'', CondStatus = ''False'', ObservedGeneration = 0,
                             LastTransitionTime = 7, Reason = ''Provisioning'',
                             Message = ''Cluster is being provisioned''\<rparr>]\<rparr>\<rparr>)],
        \<lparr>Requeue = True, RequeueAfter = 0\<rparr>, None)"
proof -
  let ?r = "sampleReconciler\<lparr>Get_Cluster := (\<lambda>req. Inr newCluster)\<rparr>"
  have h1: "Get_Cluster ?r (''tenant'', ''demo'') = Inr newCluster" by simp
  have h2: "IsZero (DeletionTimestamp newCluster)" by code_simp
  have h3: "Phase (Status newCluster) = [] \<or> Phase (Status newCluster) = ClusterUnknown"
    by code_simp
  have w: "Status_Update sampleReconciler c = None" for c by (simp add: sampleReconciler_def)
  have n: "Now sampleReconciler = 7" by (simp add: sampleReconciler_def)
  have c: "Conditions (Status newCluster) = []" by code_simp
  from initial_status_write [OF h1 h2 h3] show ?thesis
    by (simp add: Let_def w n c prod_eq_iff initialCondition_def ClusterProvisioning_def
          ConditionReady_def ConditionFalse_def ReasonProvisioning_def)
qed

lemma Reconcile_converging:
  assumes "reachesConvergence r req cluster"
      and "reconcileCluster r cluster = (t, cluster', reconcilerErr)"
      and "classify r cluster cluster' reconcilerErr = (t', res)"
  shows "Reconcile r req =
           (if Status cluster \<noteq> Status cluster'
            then (case Status_Update r cluster' of
                    Some err \<Rightarrow> (Get_Cluster_ev req # t @ [Status_Update_ev cluster'],
                                 Result_empty, Some err)
                  | None \<Rightarrow> (Get_Cluster_ev req # t @ [Status_Update_ev cluster'] @ t', res))
            else (Get_Cluster_ev req # t @ t', res))"
proof -
  from assms(1) have reach: "Get_Cluster r req = Inr cluster" "IsZero (DeletionTimestamp cluster)"
      "Phase (Status cluster) \<noteq> []" "Phase (Status cluster) \<noteq> ClusterUnknown"
      "AddFinalizer cluster clusterFinalizerName = (cluster, False)"
    by (simp_all add: reachesConvergence_def AddFinalizer_def)
  show ?thesis
    by (simp add: Reconcile_def reach assms(2,3) Let_def split: option.splits)
qed

text \<open>
  Claim C4. In a pass that reaches the convergence procedure, the status writes of the
  pass are: exactly one, of the Cluster as convergence left it, when its status differs
  from the status of the Cluster as loaded (the snapshot), and none otherwise. The
  write follows the events of the convergence, and whether convergence returned an
  error plays no part.
\<close>

theorem status_write_iff_changed:
  assumes "reachesConvergence r req cluster"
  shows "let (t, cluster', reconcilerErr) = reconcileCluster r cluster;
             w = (if Status cluster' \<noteq> Status cluster then [Status_Update_ev cluster'] else [])
         in filter isStatusWrite (fst (Reconcile r req)) = w \<and>
            (\<exists>rest. fst (Reconcile r req) = Get_Cluster_ev req # t @ w @ rest)"
proof -
  obtain t cluster' reconcilerErr where rc: "reconcileCluster r cluster = (t, cluster', reconcilerErr)"
    by (cases "reconcileCluster r cluster")
  obtain t' res where cl: "classify r cluster cluster' reconcilerErr = (t', res)"
    by (cases "classify r cluster cluster' reconcilerErr")
  from rc have t: "t = events (reconcile r cluster)"
    by (simp add: reconcileCluster_def Let_def)
  have nw: "filter isStatusWrite t = []"
    unfolding t using events_reconcile [of r cluster] by (simp add: list_all_iff filter_empty_conv)
  have "filter isStatusWrite (fst (classify r cluster cluster' reconcilerErr)) = []"
    by (simp add: classify_def split: option.splits)
  with cl have nw': "filter isStatusWrite t' = []" by simp
  note R = Reconcile_converging [OF assms rc cl]
  show ?thesis
  proof (cases "Status cluster' = Status cluster")
    case True
    with R nw nw' rc show ?thesis by simp
  next
    case False
    then have ne: "Status cluster \<noteq> Status cluster'" by auto
    show ?thesis
    proof (cases "Status_Update r cluster'")
      case None
      with R ne nw nw' rc False show ?thesis by simp
    next
      case (Some err)
      with R ne nw rc False show ?thesis by simp
    qed
  qed
qed

theorem status_write_iff_changed_witness:
  "filter isStatusWrite (fst (Reconcile noWebhookPort (''tenant'', ''demo''))) =
     [Status_Update_ev (fst (snd (reconcileCluster noWebhookPort sampleCluster)))] \<and>
   snd (snd (reconcileCluster noWebhookPort sampleCluster)) = Some (OtherError ''no free port'')"
proof -
  have reach: "reachesConvergence noWebhookPort (''tenant'', ''demo'') sampleCluster"
    by code_simp
  have changed: "Status (fst (snd (reconcileCluster noWebhookPort sampleCluster))) \<noteq> Status sampleCluster"
    by code_simp
  have err: "snd (snd (reconcileCluster noWebhookPort sampleCluster)) = Some (OtherError ''no free port'')"
    by code_simp
  from status_write_iff_changed [OF reach] changed err show ?thesis
    by (simp add: Let_def split_def)
qed

text \<open>
  Claim C6, as stated, fails. On a host where the server does not answer yet, the
  convergence of the sample Cluster fails with an error of the kind
  \<^verbatim>\<open>ErrServerNotReady\<close> after it has changed the status; the status write that follows
  is refused, and the pass returns the error of the write, not a delayed requeue.
\<close>

theorem refused_status_write_is_returned:
  "reachesConvergence refusedWrite (''tenant'', ''demo'') sampleCluster \<and>
   snd (snd (reconcileCluster refusedWrite sampleCluster)) =
     Some (Wrapped ''bootstrap data'' ErrServerNotReady) \<and>
   errors_Is (Wrapped ''bootstrap data'' ErrServerNotReady) ErrServerNotReady \<and>
   Status (fst (snd (reconcileCluster refusedWrite sampleCluster))) \<noteq> Status sampleCluster \<and>
   snd (Reconcile refusedWrite (''tenant'', ''demo'')) =
     (\<lparr>Requeue = False, RequeueAfter = 0\<rparr>, Some (StatusError (KnownReason ''Conflict'') 409))"
  by code_simp

text \<open>
  Claim C6, amended. A pass that reaches the convergence procedure and whose
  convergence fails: when the status has changed and the status write is refused, the
  pass returns the error of the write; in every other case an error of the kind
  \<^verbatim>\<open>ErrServerNotReady\<close> gives no error and a requeue after ten seconds, and every other
  error of the convergence is returned as it is, with an empty result.
\<close>

theorem convergence_error_after_status_write:
  assumes "reachesConvergence r req cluster"
      and "reconcileCluster r cluster = (t, cluster', Some e)"
  shows "snd (Reconcile r req) =
           (if Status cluster' \<noteq> Status cluster \<and> Status_Update r cluster' \<noteq> None
            then (\<lparr>Requeue = False, RequeueAfter = 0\<rparr>, Status_Update r cluster')
            else if errors_Is e ErrServerNotReady
            then (\<lparr>Requeue = False, RequeueAfter = 10 * 1000000000\<rparr>, None)
            else (\<lparr>Requeue = False, RequeueAfter = 0\<rparr>, Some e))"
proof -
  obtain t' res where cl: "classify r cluster cluster' (Some e) = (t', res)"
    by (cases "classify r cluster cluster' (Some e)")
  then have res: "res =
           (if errors_Is e ErrServerNotReady
            then (\<lparr>Requeue = False, RequeueAfter = 10 * 1000000000\<rparr>, None)
            else (\<lparr>Requeue = False, RequeueAfter = 0\<rparr>, Some e))"
    by (auto simp: classify_def Result_empty_def Second_def split: if_splits)
  note R = Reconcile_converging [OF assms(1,2) cl]
  show ?thesis
  proof (cases "Status cluster' = Status cluster")
    case True
    with R res show ?thesis by simp
  next
    case False
    then have ne: "Status cluster \<noteq> Status cluster'" by auto
    show ?thesis
    proof (cases "Status_Update r cluster'")
      case None
      with R res ne show ?thesis by simp
    next
      case (Some err)
      with R ne False show ?thesis by (simp add: Result_empty_def)
    qed
  qed
qed

theorem convergence_error_after_status_write_witness:
  "snd (Reconcile serverNotReady (''tenant'', ''demo'')) =
     (\<lparr>Requeue = False, RequeueAfter = 10000000000\<rparr>, None) \<and>
   snd (Reconcile noWebhookPort (''tenant'', ''demo'')) =
     (\<lparr>Requeue = False, RequeueAfter = 0\<rparr>, Some (OtherError ''no free port'')) \<and>
   snd (Reconcile refusedWrite (''tenant'', ''demo'')) =
     (\<lparr>Requeue = False, RequeueAfter = 0\<rparr>, Some (StatusError (KnownReason ''Conflict'') 409))"
proof -
  let ?e = "Wrapped ''bootstrap data'' ErrServerNotReady"
  have reach1: "reachesConvergence serverNotReady (''tenant'', ''demo'') sampleCluster"
    by code_simp
  have "snd (snd (reconcileCluster serverNotReady sampleCluster)) = Some ?e"
    by code_simp
  then have rc1: "reconcileCluster serverNotReady sampleCluster =
      (fst (reconcileCluster serverNotReady sampleCluster),
       fst (snd (reconcileCluster serverNotReady sampleCluster)), Some ?e)"
    by (simp add: prod_eq_iff)
  have w1: "Status_Update serverNotReady c = None" for c
    by (simp add: serverNotReady_def sampleReconciler_def)
  have reach2: "reachesConvergence noWebhookPort (''tenant'', ''demo'') sampleCluster"
    by code_simp
  have "snd (snd (reconcileCluster noWebhookPort sampleCluster)) = Some (OtherError ''no free port'')"
    by code_simp
  then have rc2: "reconcileCluster noWebhookPort sampleCluster =
      (fst (reconcileCluster noWebhookPort sampleCluster),
       fst (snd (reconcileCluster noWebhookPort sampleCluster)), Some (OtherError ''no free port''))"
    by (simp add: prod_eq_iff)
  have w2: "Status_Update noWebhookPort c = None" for c
    by (simp add: noWebhookPort_def sampleReconciler_def)
  have reach3: "reachesConvergence refusedWrite (''tenant'', ''demo'') sampleCluster"
    by code_simp
  have "snd (snd (reconcileCluster refusedWrite sampleCluster)) = Some ?e"
    by code_simp
  then have rc3: "reconcileCluster refusedWrite sampleCluster =
      (fst (reconcileCluster refusedWrite sampleCluster),
       fst (snd (reconcileCluster refusedWrite sampleCluster)), Some ?e)"
    by (simp add: prod_eq_iff)
  have w3: "Status_Update refusedWrite c = Some (StatusError (KnownReason ''Conflict'') 409)" for c
    by (simp add: refusedWrite_def)
  have ch3: "Status (fst (snd (reconcileCluster refusedWrite sampleCluster))) \<noteq> Status sampleCluster"
    by code_simp
  from convergence_error_after_status_write [OF reach1 rc1]
       convergence_error_after_status_write [OF reach2 rc2]
       convergence_error_after_status_write [OF reach3 rc3]
  show ?thesis by (simp add: w1 w2 w3 ch3)
qed

subsection \<open>The host version\<close>

lemma HostVersion_after_ensureOwned:
  "HostVersion (Status (cluster_of (ensureOwned r tok c))) = HostVersion (Status c)"
  by (rule portless_fields [OF portless_ensureOwned])

lemma HostVersion_after_assignCIDRs:
  "HostVersion (Status (cluster_of (assignCIDRs r c))) = HostVersion (Status c)"
  by (simp add: cluster_of_assignCIDRs)

lemma HostVersion_kept_from_token:
  "HostVersion (Status (cluster_of
     (andThen (call token_ev (c_token r c) c) (\<lambda>tok cluster.
      andThen (assignCIDRs r cluster) (\<lambda>_ cluster. ensureOwned r tok cluster))))) =
   HostVersion (Status c)"
  by (rule view_andThen_inv [where g = "\<lambda>c. HostVersion (Status c)"]
      | simp add: HostVersion_after_assignCIDRs HostVersion_after_ensureOwned)+

lemma HostVersion_sticky_converge:
  assumes "HostVersion (Status c) \<noteq> []"
  shows "HostVersion (Status (cluster_of (converge r c))) = HostVersion (Status c)"
proof -
  from assms have rv: "resolveHostVersion r c = succeed () c"
    by (simp add: resolveHostVersion_def)
  show ?thesis
    unfolding converge_def rv
    using HostVersion_kept_from_token [of r c] by (simp add: succeed_def split_def cluster_of_def)
qed

lemma HostVersion_sticky:
  assumes "HostVersion (Status c) \<noteq> []"
  shows "HostVersion (Status (cluster_of (reconcile r c))) = HostVersion (Status c)"
  unfolding reconcile_def
proof (rule andThen_rule [where Q = "\<lambda>c1::Cluster. HostVersion (Status c1) = HostVersion (Status c)"])
  show "HostVersion (Status (cluster_of (checkPolicy r c))) = HostVersion (Status c)"
    by (simp add: cluster_of_checkPolicy split: sum.splits)
next
  fix x :: unit and c1 :: Cluster
  assume "HostVersion (Status c1) = HostVersion (Status c)"
  with assms HostVersion_sticky_converge [of c1 r]
  show "HostVersion (Status (cluster_of (converge r c1))) = HostVersion (Status c)" by simp
qed simp

lemma HostVersion_resolved_converge:
  assumes "Version (Spec c) = []" and "HostVersion (Status c) = []" and "ServerVersion r = Inr v"
  shows "ServerVersion_ev \<in> set (events (converge r c))"
    and "HostVersion (Status (cluster_of (converge r c))) =
           takeWhile (\<lambda>x. x \<noteq> CHR ''+'') v @ ''-k3s1''"
proof -
  let ?c2 = "c\<lparr>Status := (Status c)\<lparr>HostVersion := takeWhile (\<lambda>x. x \<noteq> CHR ''+'') v @ ''-k3s1''\<rparr>\<rparr>"
  from assms have rv: "resolveHostVersion r c = ([ServerVersion_ev], ?c2, Inr ())"
    by (simp add: resolveHostVersion_def call_def succeed_def Let_def Split_single_first)
  show "ServerVersion_ev \<in> set (events (converge r c))"
    unfolding converge_def rv by (simp add: split_def events_def)
  show "HostVersion (Status (cluster_of (converge r c))) =
           takeWhile (\<lambda>x. x \<noteq> CHR ''+'') v @ ''-k3s1''"
    unfolding converge_def rv
    using HostVersion_kept_from_token [of r ?c2] by (simp add: split_def cluster_of_def)
qed

text \<open>
  Claim C7. With an empty \<^verbatim>\<open>Spec.Version\<close> and an empty \<^verbatim>\<open>Status.HostVersion\<close>, a
  convergence that passes the policy check and gets an answer from the host queries the
  host's version and records it with everything from the first \<^verbatim>\<open>+\<close> on removed and
  \<^verbatim>\<open>-k3s1\<close> appended. A non-empty \<^verbatim>\<open>Status.HostVersion\<close> is never changed by a
  convergence.
\<close>

theorem host_version_resolved_once:
  "(Version (Spec c) = [] \<and> HostVersion (Status c) = [] \<and>
    result (checkPolicy r c) = Inr () \<and> ServerVersion r = Inr v \<longrightarrow>
      ServerVersion_ev \<in> set (events (reconcile r c)) \<and>
      HostVersion (Status (cluster_of (reconcile r c))) =
        takeWhile (\<lambda>x. x \<noteq> CHR ''+'') v @ ''-k3s1'') \<and>
   (HostVersion (Status c) \<noteq> [] \<longrightarrow>
      HostVersion (Status (cluster_of (reconcile r c))) = HostVersion (Status c))"
proof (intro conjI impI)
  assume "HostVersion (Status c) \<noteq> []"
  then show "HostVersion (Status (cluster_of (reconcile r c))) = HostVersion (Status c)"
    by (rule HostVersion_sticky)
next
  assume a: "Version (Spec c) = [] \<and> HostVersion (Status c) = [] \<and>
    result (checkPolicy r c) = Inr () \<and> ServerVersion r = Inr v"
  let ?c1 = "cluster_of (checkPolicy r c)"
  from a have c1: "Version (Spec ?c1) = []" "HostVersion (Status ?c1) = []"
    by (simp_all add: cluster_of_checkPolicy split: sum.splits)
  from a have rec: "reconcile r c = (events (checkPolicy r c) @ events (converge r ?c1),
                        cluster_of (converge r ?c1), result (converge r ?c1))"
    unfolding reconcile_def by (intro andThen_success) simp
  from a HostVersion_resolved_converge [OF c1, of r v]
  show "ServerVersion_ev \<in> set (events (reconcile r c))"
    and "HostVersion (Status (cluster_of (reconcile r c))) =
        takeWhile (\<lambda>x. x \<noteq> CHR ''+'') v @ ''-k3s1''"
    by (simp_all add: rec)
qed

theorem host_version_resolved_once_witness:
  "ServerVersion_ev \<in> set (events (reconcile sampleReconciler sampleCluster)) \<and>
   HostVersion (Status (cluster_of (reconcile sampleReconciler sampleCluster))) = ''v1.31.2-k3s1'' \<and>
   HostVersion (Status (cluster_of (reconcile sampleReconciler resolvedCluster))) = ''v1.30.0-k3s1''"
proof -
  have h1: "Version (Spec sampleCluster) = [] \<and> HostVersion (Status sampleCluster) = [] \<and>
    result (checkPolicy sampleReconciler sampleCluster) = Inr () \<and>
    ServerVersion sampleReconciler = Inr ''v1.31.2+k3s1''"
    by code_simp
  have h2: "HostVersion (Status resolvedCluster) \<noteq> []" by code_simp
  have h3: "HostVersion (Status resolvedCluster) = ''v1.30.0-k3s1''" by code_simp
  from host_version_resolved_once [of sampleCluster sampleReconciler "''v1.31.2+k3s1''"]
       host_version_resolved_once [of resolvedCluster sampleReconciler "''v1.31.2+k3s1''"]
       h1 h2 h3
  show ?thesis by simp
qed

subsection \<open>The policy of the namespace\<close>

text \<open>
  Claim C8. The namespace of the Cluster carries the policy label with a non-empty
  value and the named policy is found: when the Cluster is named \<^verbatim>\<open>system\<close> or its mode
  is not the mode the policy allows, convergence has read the namespace and the policy
  and nothing else (no step that creates an owned resource has run), has recorded the
  policy's name in the status, and fails with an error that wraps
  \<^verbatim>\<open>ErrClusterValidation\<close>.
\<close>

theorem validation_failure_stops_convergence:
  assumes "Get_Namespace r (Namespace c) = Inr ns"
      and "Labels ns PolicyNameLabelKey = Some p" and "p \<noteq> []"
      and "Get_Policy r p = Inr pol"
      and "Name c = ''system'' \<or> Mode (Spec c) \<noteq> AllowedMode pol"
  shows "events (reconcile r c) = [Get_Namespace_ev (Namespace c), Get_Policy_ev p] \<and>
         cluster_of (reconcile r c) = c\<lparr>Status := (Status c)\<lparr>PolicyName := p\<rparr>\<rparr> \<and>
         (case result (reconcile r c) of
            Inl e \<Rightarrow> errors_Is e ErrClusterValidation
          | Inr _ \<Rightarrow> False)"
proof -
  let ?c1 = "c\<lparr>Status := (Status c)\<lparr>PolicyName := p\<rparr>\<rparr>"
  from assms(5) have "\<exists>m. validate ?c1 pol = Some (Wrapped m ErrClusterValidation)"
    by (auto simp: validate_def ClusterInvalidName_def)
  then obtain m where v: "validate ?c1 pol = Some (Wrapped m ErrClusterValidation)" ..
  from assms(1-4) v
  have cp: "checkPolicy r c = ([Get_Namespace_ev (Namespace c), Get_Policy_ev p], ?c1,
                               Inl (Wrapped m ErrClusterValidation))"
    by (simp add: checkPolicy_def call_def compute_def check_def Let_def)
  show ?thesis
    by (simp add: reconcile_def cp)
qed

theorem validation_failure_stops_convergence_witness:
  "reconcile policyHost sampleCluster =
     ([Get_Namespace_ev ''tenant'', Get_Policy_ev ''strict''],
      sampleCluster\<lparr>Status := (Status sampleCluster)\<lparr>PolicyName := ''strict''\<rparr>\<rparr>,
      Inl (Wrapped ''mode is not allowed by the policy'' ErrClusterValidation))"
proof -
  have h1: "Get_Namespace policyHost (Namespace sampleCluster) =
              Inr \<lparr>Labels = [''policy.k3k.io/policy-name'' \<mapsto> ''strict'']\<rparr>"
    by (simp add: policyHost_def)
  have h2: "Labels \<lparr>Labels = [''policy.k3k.io/policy-name'' \<mapsto> ''strict'']\<rparr> PolicyNameLabelKey
              = Some ''strict''"
    by (simp add: PolicyNameLabelKey_def)
  have h3: "''strict'' \<noteq> []" by simp
  have h4: "Get_Policy policyHost ''strict'' = Inr \<lparr>PolicyObjName = ''strict'', AllowedMode = ''virtual''\<rparr>"
    by (simp add: policyHost_def)
  have h5: "Name sampleCluster = ''system'' \<or>
            Mode (Spec sampleCluster) \<noteq> AllowedMode \<lparr>PolicyObjName = ''strict'', AllowedMode = ''virtual''\<rparr>"
    by (simp add: sampleCluster_def)
  have r: "result (reconcile policyHost sampleCluster) =
             Inl (Wrapped ''mode is not allowed by the policy'' ErrClusterValidation)"
    by code_simp
  have n: "Namespace sampleCluster = ''tenant''" by code_simp
  from validation_failure_stops_convergence [OF h1 h2 h3 h4 h5] r n
  show ?thesis
    by (simp add: prod_eq_iff events_def cluster_of_def result_def)
qed

text \<open>
  Claim C9. The namespace of the Cluster carries no policy label, or an empty one:
  convergence is the read of the namespace followed by the steps after the validation,
  run on the Cluster with an empty policy name; no policy is read and \<^verbatim>\<open>validate\<close> is
  not called, whatever the Cluster's name (the witness is a Cluster named \<^verbatim>\<open>system\<close>
  whose convergence succeeds).
\<close>

theorem no_policy_label_no_validation:
  assumes "Get_Namespace r (Namespace c) = Inr ns"
      and "Labels ns PolicyNameLabelKey = None \<or> Labels ns PolicyNameLabelKey = Some []"
  shows "reconcile r c =
           (case converge r (c\<lparr>Status := (Status c)\<lparr>PolicyName := []\<rparr>\<rparr>) of
              (t, c', res) \<Rightarrow> (Get_Namespace_ev (Namespace c) # t, c', res)) \<and>
         filter (\<lambda>ev. \<not> convergenceEvent ev) (events (reconcile r c)) =
           [Get_Namespace_ev (Namespace c)]"
proof -
  let ?c1 = "c\<lparr>Status := (Status c)\<lparr>PolicyName := []\<rparr>\<rparr>"
  from assms have cp: "checkPolicy r c = ([Get_Namespace_ev (Namespace c)], ?c1, Inr ())"
    by (auto simp: checkPolicy_def call_def succeed_def Let_def)
  have eq: "reconcile r c =
           (case converge r ?c1 of (t, c', res) \<Rightarrow> (Get_Namespace_ev (Namespace c) # t, c', res))"
    by (simp add: reconcile_def cp)
  have "filter (\<lambda>ev. \<not> convergenceEvent ev) (events (converge r ?c1)) = []"
    using events_converge [of r ?c1] by (simp add: list_all_iff filter_empty_conv)
  then have "filter (\<lambda>ev. \<not> convergenceEvent ev) (events (reconcile r c)) =
           [Get_Namespace_ev (Namespace c)]"
    by (simp add: eq split_def events_def)
  with eq show ?thesis by simp
qed

theorem no_policy_label_no_validation_witness:
  "result (reconcile sampleReconciler systemCluster) = Inr () \<and>
   filter (\<lambda>ev. \<not> convergenceEvent ev) (events (reconcile sampleReconciler systemCluster)) =
     [Get_Namespace_ev ''tenant'']"
proof -
  have h1: "Get_Namespace sampleReconciler (Namespace systemCluster) = Inr \<lparr>Labels = Map.empty\<rparr>"
    by (simp add: sampleReconciler_def)
  have h2: "Labels \<lparr>Labels = Map.empty\<rparr> PolicyNameLabelKey = None \<or>
            Labels \<lparr>Labels = Map.empty\<rparr> PolicyNameLabelKey = Some []"
    by simp
  have n: "Namespace systemCluster = ''tenant''" by code_simp
  have r: "result (reconcile sampleReconciler systemCluster) = Inr ()" by code_simp
  from no_policy_label_no_validation [OF h1 h2]
  have "filter (\<lambda>ev. \<not> convergenceEvent ev) (events (reconcile sampleReconciler systemCluster)) =
          [Get_Namespace_ev (Namespace systemCluster)]"
    by (rule conjunct2)
  with n r show ?thesis by simp
qed

end
